theory Spec2Isabelle
  imports Complex_Main "HOL-Library.Sublist"
begin

section \<open>MechSolver: the numeric formula layer\<close>

text \<open>
  A shallow embedding of the formula functions of MechSolver (Python, with NumPy).
  Conventions of the embedding:
  \<^item> Numeric arguments are Python floats, as the command-line front end passes them. A
    finite float is a \<open>real\<close>; arithmetic on finite values is exact. Rounding and signed
    zeros of IEEE doubles are not modelled, nor is the silent overflow of \<open>+\<close>, \<open>-\<close>, \<open>*\<close>
    and \<open>/\<close> to an infinity.
  \<^item> A Python exception is a value \<open>Inl e\<close> of the result type \<open>py_error + 'a\<close>; a normal
    return is \<open>Inr v\<close>. Python's own \<open>/\<close> raises \<open>ZeroDivisionError\<close> on a zero divisor,
    \<open>math.sqrt\<close> and \<open>math.pow\<close> raise \<open>ValueError\<close> outside their domain, and \<open>**\<close>
    on a negative base with a fractional exponent returns a complex number. Python's
    \<open>**\<close> on floats raises \<open>OverflowError\<close> when the result leaves the range of a double.
  \<^item> NumPy scalar operations never raise: outside their domain they return \<open>nan\<close> or an
    infinity (with a warning only). A NumPy \<open>float64\<close> is therefore a value of type
    \<open>float64\<close>: a finite real, \<open>+inf\<close>, \<open>-inf\<close> or \<open>nan\<close>.
  \<^item> A result dictionary is an association list in insertion order.
\<close>

subsection \<open>Errors and values\<close>

datatype py_error =
    ValueError string
  | ZeroDivisionError
  | OverflowError
  | TypeError
  | KeyError string

datatype float64 = Fin real | PInf | NInf | NaN

datatype pyval =
    Float float64
  | Complex complex
  | Str string
  | FloatList "float64 list"

type_synonym result_set = "(string \<times> pyval) list"

abbreviation PyFloat :: "real \<Rightarrow> pyval" where
  "PyFloat x \<equiv> Float (Fin x)"

definition py_bind :: "py_error + 'a \<Rightarrow> ('a \<Rightarrow> py_error + 'b) \<Rightarrow> py_error + 'b" where
  "py_bind m f = (case m of Inl e \<Rightarrow> Inl e | Inr x \<Rightarrow> f x)"

subsection \<open>Python float operations\<close>

text \<open>\<^verbatim>\<open>x / y\<close> on Python numbers.\<close>

definition py_div :: "real \<Rightarrow> real \<Rightarrow> py_error + real" where
  "py_div x y = (if y = 0 then Inl ZeroDivisionError else Inr (x / y))"

text \<open>The largest finite double, \<open>2\<^bsup>1024\<^esup> - 2\<^bsup>971\<^esup>\<close> (about \<open>1.797e308\<close>).\<close>

definition float_max :: real where
  "float_max = 2 ^ 1024 - 2 ^ 971"

text \<open>
  \<^verbatim>\<open>x ** y\<close> on Python floats (CPython \<open>float_pow\<close>): \<open>x ** 0\<close> is 1; \<open>0 ** y\<close> raises
  for negative \<open>y\<close> and is 0 otherwise; a negative base with a non-integral exponent is
  handed to complex exponentiation, which returns \<open>|x|\<^sup>y (cos (\<pi> y) + i sin (\<pi> y))\<close>. In
  both the real and the complex case a power \<open>|x|\<^sup>y\<close> beyond the largest double raises
  \<open>OverflowError\<close>.
\<close>

definition py_pow :: "real \<Rightarrow> real \<Rightarrow> py_error + pyval" where
  "py_pow x y =
     (if y = 0 then Inr (PyFloat 1)
      else if x = 0 then (if y < 0 then Inl ZeroDivisionError else Inr (PyFloat 0))
      else if float_max < \<bar>x\<bar> powr y then Inl OverflowError
      else if x < 0 \<and> y \<noteq> of_int \<lfloor>y\<rfloor> then Inr (Complex (rcis (\<bar>x\<bar> powr y) (pi * y)))
      else if x < 0 then Inr (PyFloat ((if even \<lfloor>y\<rfloor> then 1 else - 1) * (\<bar>x\<bar> powr y)))
      else Inr (PyFloat (x powr y)))"

text \<open>\<^verbatim>\<open>x ** 2\<close> on a Python float: the square, or \<open>OverflowError\<close> beyond the largest double.\<close>

definition py_square :: "real \<Rightarrow> py_error + real" where
  "py_square x = (if float_max < x\<^sup>2 then Inl OverflowError else Inr (x\<^sup>2))"

text \<open>\<^verbatim>\<open>x ** n\<close> on a Python float, for a positive integer literal \<open>n\<close>.\<close>

definition py_int_pow :: "real \<Rightarrow> nat \<Rightarrow> py_error + real" where
  "py_int_pow x n = (if float_max < \<bar>x ^ n\<bar> then Inl OverflowError else Inr (x ^ n))"

text \<open>
  \<^verbatim>\<open>math.sqrt(x)\<close> and \<^verbatim>\<open>math.pow(x, y)\<close>: a \<open>ValueError\<close> outside the real domain.
  (\<^verbatim>\<open>math.pow\<close> raises \<open>OverflowError\<close> as \<^verbatim>\<open>**\<close> does; its only use here is a cube
  root, which cannot overflow.)
\<close>

definition math_sqrt :: "real \<Rightarrow> py_error + real" where
  "math_sqrt x = (if x < 0 then Inl (ValueError ''math domain error'') else Inr (sqrt x))"

definition math_pow :: "real \<Rightarrow> real \<Rightarrow> py_error + real" where
  "math_pow x y =
     (if y = 0 then Inr 1
      else if x = 0 then (if y < 0 then Inl (ValueError ''math domain error'') else Inr 0)
      else if x < 0 \<and> y \<noteq> of_int \<lfloor>y\<rfloor> then Inl (ValueError ''math domain error'')
      else if x < 0 then Inr ((if even \<lfloor>y\<rfloor> then 1 else - 1) * (\<bar>x\<bar> powr y))
      else Inr (x powr y))"

text \<open>
  \<^verbatim>\<open>min(iterable)\<close>: a \<open>ValueError\<close> on an empty iterable (the wording of its message
  varies between CPython versions), else the least element.
\<close>

definition py_min :: "int list \<Rightarrow> py_error + int" where
  "py_min xs =
     (case xs of
        [] \<Rightarrow> Inl (ValueError ''min() arg is an empty sequence'')
      | x # rest \<Rightarrow> Inr (fold min rest x))"

subsection \<open>NumPy float64 operations\<close>

fun np_neg :: "float64 \<Rightarrow> float64" where
  "np_neg (Fin x) = Fin (- x)"
| "np_neg PInf = NInf"
| "np_neg NInf = PInf"
| "np_neg NaN = NaN"

fun np_add :: "float64 \<Rightarrow> float64 \<Rightarrow> float64" where
  "np_add (Fin x) (Fin y) = Fin (x + y)"
| "np_add NaN _ = NaN"
| "np_add _ NaN = NaN"
| "np_add PInf NInf = NaN"
| "np_add NInf PInf = NaN"
| "np_add PInf _ = PInf"
| "np_add _ PInf = PInf"
| "np_add NInf _ = NInf"
| "np_add _ NInf = NInf"

definition np_sub :: "float64 \<Rightarrow> float64 \<Rightarrow> float64" where
  "np_sub a b = np_add a (np_neg b)"

fun np_mul :: "float64 \<Rightarrow> float64 \<Rightarrow> float64" where
  "np_mul (Fin x) (Fin y) = Fin (x * y)"
| "np_mul NaN _ = NaN"
| "np_mul _ NaN = NaN"
| "np_mul PInf (Fin y) = (if 0 < y then PInf else if y < 0 then NInf else NaN)"
| "np_mul NInf (Fin y) = (if 0 < y then NInf else if y < 0 then PInf else NaN)"
| "np_mul (Fin x) PInf = (if 0 < x then PInf else if x < 0 then NInf else NaN)"
| "np_mul (Fin x) NInf = (if 0 < x then NInf else if x < 0 then PInf else NaN)"
| "np_mul PInf PInf = PInf"
| "np_mul PInf NInf = NInf"
| "np_mul NInf PInf = NInf"
| "np_mul NInf NInf = PInf"

text \<open>Division by zero gives an infinity of the dividend's sign, and \<open>0 / 0\<close> gives \<open>nan\<close>.\<close>

fun np_div :: "float64 \<Rightarrow> float64 \<Rightarrow> float64" where
  "np_div (Fin x) (Fin y) =
     (if y \<noteq> 0 then Fin (x / y) else if 0 < x then PInf else if x < 0 then NInf else NaN)"
| "np_div NaN _ = NaN"
| "np_div _ NaN = NaN"
| "np_div (Fin x) PInf = Fin 0"
| "np_div (Fin x) NInf = Fin 0"
| "np_div PInf (Fin y) = (if 0 \<le> y then PInf else NInf)"
| "np_div NInf (Fin y) = (if 0 \<le> y then NInf else PInf)"
| "np_div PInf PInf = NaN"
| "np_div PInf NInf = NaN"
| "np_div NInf PInf = NaN"
| "np_div NInf NInf = NaN"

fun np_sqrt :: "float64 \<Rightarrow> float64" where
  "np_sqrt (Fin x) = (if 0 \<le> x then Fin (sqrt x) else NaN)"
| "np_sqrt PInf = PInf"
| "np_sqrt NInf = NaN"
| "np_sqrt NaN = NaN"

fun np_sin :: "float64 \<Rightarrow> float64" where
  "np_sin (Fin x) = Fin (sin x)"
| "np_sin _ = NaN"

fun np_cos :: "float64 \<Rightarrow> float64" where
  "np_cos (Fin x) = Fin (cos x)"
| "np_cos _ = NaN"

fun np_arctan :: "float64 \<Rightarrow> float64" where
  "np_arctan (Fin x) = Fin (arctan x)"
| "np_arctan PInf = Fin (pi / 2)"
| "np_arctan NInf = Fin (- (pi / 2))"
| "np_arctan NaN = NaN"

text \<open>The two-argument arctangent on finite reals: the angle of the point \<open>(x, y)\<close>.\<close>

definition arctan2 :: "real \<Rightarrow> real \<Rightarrow> real" where
  "arctan2 y x =
     (if 0 < x then arctan (y / x)
      else if x < 0 then (if 0 \<le> y then arctan (y / x) + pi else arctan (y / x) - pi)
      else if 0 < y then pi / 2
      else if y < 0 then - (pi / 2)
      else 0)"

fun np_arctan2 :: "float64 \<Rightarrow> float64 \<Rightarrow> float64" where
  "np_arctan2 (Fin y) (Fin x) = Fin (arctan2 y x)"
| "np_arctan2 NaN _ = NaN"
| "np_arctan2 _ NaN = NaN"
| "np_arctan2 (Fin y) PInf = Fin 0"
| "np_arctan2 (Fin y) NInf = Fin (if 0 \<le> y then pi else - pi)"
| "np_arctan2 PInf (Fin x) = Fin (pi / 2)"
| "np_arctan2 NInf (Fin x) = Fin (- (pi / 2))"
| "np_arctan2 PInf PInf = Fin (pi / 4)"
| "np_arctan2 PInf NInf = Fin (3 * pi / 4)"
| "np_arctan2 NInf PInf = Fin (- (pi / 4))"
| "np_arctan2 NInf NInf = Fin (- (3 * pi / 4))"

text \<open>\<^verbatim>\<open>np.radians\<close> on a finite number, and \<^verbatim>\<open>np.degrees\<close> on a float64.\<close>

definition np_radians :: "real \<Rightarrow> real" where
  "np_radians x = x * pi / 180"

definition np_degrees :: "float64 \<Rightarrow> float64" where
  "np_degrees a = np_mul a (Fin (180 / pi))"

text \<open>\<^verbatim>\<open>a < b\<close> on float64: false whenever an operand is \<open>nan\<close>.\<close>

fun np_less :: "float64 \<Rightarrow> float64 \<Rightarrow> bool" where
  "np_less (Fin x) (Fin y) = (x < y)"
| "np_less NaN _ = False"
| "np_less _ NaN = False"
| "np_less _ NInf = False"
| "np_less PInf _ = False"
| "np_less NInf _ = True"
| "np_less _ PInf = True"

text \<open>\<^verbatim>\<open>a >= b\<close> on float64: false whenever an operand is \<open>nan\<close>.\<close>

definition np_greater_equal :: "float64 \<Rightarrow> float64 \<Rightarrow> bool" where
  "np_greater_equal a b = (a \<noteq> NaN \<and> b \<noteq> NaN \<and> \<not> np_less a b)"

text \<open>\<^verbatim>\<open>a ** 2\<close> on a float64: NumPy's power does not raise.\<close>

definition np_square :: "float64 \<Rightarrow> float64" where
  "np_square a = np_mul a a"

section \<open>Kinematics\<close>

subsection \<open>\<open>solve_motion\<close>\<close>

text \<open>
  \<^verbatim>\<open>
  def solve_motion(velocity=None, acceleration=None, time=None, displacement=None):
      results = {}
      if velocity is not None and acceleration is not None and time is not None:
          results['displacement'] = velocity * time + 0.5 * acceleration * time**2
          results['final_velocity'] = velocity + acceleration * time
      elif velocity is not None and displacement is not None and acceleration is not None:
          results['final_velocity'] = np.sqrt(velocity**2 + 2 * acceleration * displacement)
          results['time'] = (-velocity + np.sqrt(velocity**2 + 2 * acceleration * displacement)) / acceleration
      return results
  \<close>
  The arguments are Python floats, so \<^verbatim>\<open>time**2\<close> and \<^verbatim>\<open>velocity**2\<close> are Python powers
  and raise \<open>OverflowError\<close> beyond the largest double. The rest of the second branch
  computes with NumPy: a negative radicand gives \<open>nan\<close> and a zero acceleration divides a
  float64 by zero; neither raises.
\<close>

definition solve_motion ::
  "real option \<Rightarrow> real option \<Rightarrow> real option \<Rightarrow> real option \<Rightarrow> py_error + result_set" where
  "solve_motion velocity acceleration time displacement =
     (if velocity \<noteq> None \<and> acceleration \<noteq> None \<and> time \<noteq> None then
        py_bind (py_square (the time)) (\<lambda>time_sq.
        Inr [(''displacement'',
                PyFloat (the velocity * the time + 0.5 * the acceleration * time_sq)),
             (''final_velocity'', PyFloat (the velocity + the acceleration * the time))])
      else if velocity \<noteq> None \<and> displacement \<noteq> None \<and> acceleration \<noteq> None then
        py_bind (py_square (the velocity)) (\<lambda>velocity_sq.
        Inr [(''final_velocity'',
                Float (np_sqrt (Fin (velocity_sq + 2 * the acceleration * the displacement)))),
             (''time'',
                Float (np_div
                  (np_add (Fin (- the velocity))
                     (np_sqrt (Fin (velocity_sq + 2 * the acceleration * the displacement))))
                  (Fin (the acceleration))))])
      else Inr [])"

text \<open>The combinations of provided arguments for which \<open>solve_motion\<close> has a branch.\<close>

definition motion_supported ::
  "real option \<Rightarrow> real option \<Rightarrow> real option \<Rightarrow> real option \<Rightarrow> bool" where
  "motion_supported velocity acceleration time displacement =
     ((velocity \<noteq> None \<and> acceleration \<noteq> None \<and> time \<noteq> None) \<or>
      (velocity \<noteq> None \<and> displacement \<noteq> None \<and> acceleration \<noteq> None))"

subsection \<open>\<open>four_bar_mechanism\<close>\<close>

text \<open>
  \<^verbatim>\<open>
  def four_bar_mechanism(crank_length, coupler_length, rocker_length, ground_length, crank_angle):
      def solve_position(theta):
          a, b, c, d = crank_length, coupler_length, rocker_length, ground_length
          A = 2 * a * d * np.cos(theta)
          B = 2 * a * d * np.sin(theta)
          C = a**2 + d**2 - b**2 + c**2 + 2*a*d*np.cos(theta)
          beta = 2 * np.arctan((-B + np.sqrt(A**2 + B**2 - C**2)) / (C - A))
          gamma = np.arctan2(c*np.sin(beta) - a*np.sin(theta), c*np.cos(beta) - a*np.cos(theta))
          return beta, gamma
      if isinstance(crank_angle, (int, float)):
          beta, gamma = solve_position(np.radians(crank_angle))
          return {'rocker_angle': np.degrees(beta), 'coupler_angle': np.degrees(gamma)}
      else:
          angles = np.radians(crank_angle)
          betas, gammas = [], []
          for angle in angles:
              beta, gamma = solve_position(angle)
              betas.append(np.degrees(beta)); gammas.append(np.degrees(gamma))
          return {'rocker_angles': betas, 'coupler_angles': gammas}
  \<close>
  The link lengths are Python floats: the four squares \<^verbatim>\<open>a**2\<close>, \<^verbatim>\<open>d**2\<close>, \<^verbatim>\<open>b**2\<close>,
  \<^verbatim>\<open>c**2\<close> are Python powers, evaluated in this order, and each raises \<open>OverflowError\<close>
  beyond the largest double. \<^verbatim>\<open>A**2\<close>, \<^verbatim>\<open>B**2\<close>, \<^verbatim>\<open>C**2\<close> and everything from the
  square root on are NumPy arithmetic on float64 values, which does not raise. The loop
  over a sequence of crank angles stops at the first exception.
\<close>

definition four_bar_A :: "real \<Rightarrow> real \<Rightarrow> real \<Rightarrow> real" where
  "four_bar_A a d theta = 2 * a * d * cos theta"

definition four_bar_B :: "real \<Rightarrow> real \<Rightarrow> real \<Rightarrow> real" where
  "four_bar_B a d theta = 2 * a * d * sin theta"

definition four_bar_C :: "real \<Rightarrow> real \<Rightarrow> real \<Rightarrow> real \<Rightarrow> real \<Rightarrow> real" where
  "four_bar_C a b c d theta = a\<^sup>2 + d\<^sup>2 - b\<^sup>2 + c\<^sup>2 + 2 * a * d * cos theta"

definition discriminant :: "real \<Rightarrow> real \<Rightarrow> real \<Rightarrow> real \<Rightarrow> real \<Rightarrow> real" where
  "discriminant a b c d theta =
     (four_bar_A a d theta)\<^sup>2 + (four_bar_B a d theta)\<^sup>2 - (four_bar_C a b c d theta)\<^sup>2"

definition solve_position ::
  "real \<Rightarrow> real \<Rightarrow> real \<Rightarrow> real \<Rightarrow> real \<Rightarrow> py_error + float64 \<times> float64" where
  "solve_position a b c d theta =
     (let A = four_bar_A a d theta;
          B = four_bar_B a d theta
      in py_bind (py_square a) (\<lambda>a_sq.
         py_bind (py_square d) (\<lambda>d_sq.
         py_bind (py_square b) (\<lambda>b_sq.
         py_bind (py_square c) (\<lambda>c_sq.
         let C = a_sq + d_sq - b_sq + c_sq + 2 * a * d * cos theta;
             beta = np_mul (Fin 2)
                      (np_arctan (np_div (np_add (Fin (- B)) (np_sqrt (Fin (A\<^sup>2 + B\<^sup>2 - C\<^sup>2))))
                                         (Fin (C - A))));
             gamma = np_arctan2
                       (np_sub (np_mul (Fin c) (np_sin beta)) (Fin (a * sin theta)))
                       (np_sub (np_mul (Fin c) (np_cos beta)) (Fin (a * cos theta)))
         in Inr (beta, gamma))))))"

text \<open>The loop over the crank angles of a sequence: the solutions in order.\<close>

fun solve_positions ::
  "real \<Rightarrow> real \<Rightarrow> real \<Rightarrow> real \<Rightarrow> real list \<Rightarrow> py_error + (float64 \<times> float64) list" where
  "solve_positions a b c d [] = Inr []"
| "solve_positions a b c d (ang # angs) =
     py_bind (solve_position a b c d (np_radians ang)) (\<lambda>sol.
     py_bind (solve_positions a b c d angs) (\<lambda>sols. Inr (sol # sols)))"

text \<open>The crank angle argument: one number, or a sequence of numbers.\<close>

datatype angle_arg = Scalar real | Sequence "real list"

definition four_bar_mechanism ::
  "real \<Rightarrow> real \<Rightarrow> real \<Rightarrow> real \<Rightarrow> angle_arg \<Rightarrow> py_error + result_set" where
  "four_bar_mechanism crank_length coupler_length rocker_length ground_length crank_angle =
     (case crank_angle of
        Scalar ang \<Rightarrow>
          py_bind (solve_position crank_length coupler_length rocker_length ground_length
                     (np_radians ang)) (\<lambda>(beta, gamma).
          Inr [(''rocker_angle'', Float (np_degrees beta)),
               (''coupler_angle'', Float (np_degrees gamma))])
      | Sequence angs \<Rightarrow>
          py_bind (solve_positions crank_length coupler_length rocker_length ground_length
                     angs) (\<lambda>sols.
          Inr [(''rocker_angles'', FloatList (map (\<lambda>s. np_degrees (fst s)) sols)),
               (''coupler_angles'', FloatList (map (\<lambda>s. np_degrees (snd s)) sols))]))"

text \<open>Whether one of the four squares of the link lengths is beyond the largest double.\<close>

definition squares_overflow :: "real \<Rightarrow> real \<Rightarrow> real \<Rightarrow> real \<Rightarrow> bool" where
  "squares_overflow a b c d =
     (float_max < a\<^sup>2 \<or> float_max < d\<^sup>2 \<or> float_max < b\<^sup>2 \<or> float_max < c\<^sup>2)"





subsection \<open>\<open>projectile_motion\<close> with air resistance\<close>

text \<open>
  \<^verbatim>\<open>
  def projectile_motion(initial_velocity, angle, height=0, g=9.81,
                        air_resistance=False, drag_coefficient=0.1):
      theta = np.radians(angle)
      v0x = initial_velocity * np.cos(theta)
      v0y = initial_velocity * np.sin(theta)
      if not air_resistance:
          ...
      else:
          dt = 0.01
          x, y = [0], [height]
          vx, vy = [v0x], [v0y]
          t = [0]
          while y[-1] >= 0:
              v = np.sqrt(vx[-1]**2 + vy[-1]**2)
              fx = -drag_coefficient * v * vx[-1]
              fy = -drag_coefficient * v * vy[-1] - g
              vx.append(vx[-1] + fx*dt)
              vy.append(vy[-1] + fy*dt)
              x.append(x[-1] + vx[-1]*dt)
              y.append(y[-1] + vy[-1]*dt)
              t.append(t[-1] + dt)
          return {'max_height': max(y), 'range': x[-1], 'time_of_flight': t[-1],
                  'trajectory_x': x, 'trajectory_y': y}
  \<close>
  The branch with air resistance is embedded. The velocities are NumPy float64 values
  from the first line on, so nothing in the loop raises. The initial height is a float
  the caller passes, possibly an infinity (the front end reads it with \<^verbatim>\<open>float(input())\<close>
  and only rejects values below 0), so it is a \<open>float64\<close>. The five lists are kept as
  the code keeps them, newest element last.
\<close>

record trajectory =
  traj_x :: "float64 list"
  traj_y :: "float64 list"
  traj_vx :: "float64 list"
  traj_vy :: "float64 list"
  traj_t :: "float64 list"

text \<open>One pass through the body of the \<^verbatim>\<open>while\<close> loop.\<close>

definition euler_step :: "real \<Rightarrow> real \<Rightarrow> trajectory \<Rightarrow> trajectory" where
  "euler_step g drag_coefficient s =
     (let dt = Fin 0.01;
          v = np_sqrt (np_add (np_square (last (traj_vx s))) (np_square (last (traj_vy s))));
          fx = np_mul (np_mul (Fin (- drag_coefficient)) v) (last (traj_vx s));
          fy = np_sub (np_mul (np_mul (Fin (- drag_coefficient)) v) (last (traj_vy s))) (Fin g);
          vx = traj_vx s @ [np_add (last (traj_vx s)) (np_mul fx dt)];
          vy = traj_vy s @ [np_add (last (traj_vy s)) (np_mul fy dt)];
          x = traj_x s @ [np_add (last (traj_x s)) (np_mul (last vx) dt)];
          y = traj_y s @ [np_add (last (traj_y s)) (np_mul (last vy) dt)];
          t = traj_t s @ [np_add (last (traj_t s)) dt]
      in \<lparr>traj_x = x, traj_y = y, traj_vx = vx, traj_vy = vy, traj_t = t\<rparr>)"

text \<open>
  The \<^verbatim>\<open>while\<close> loop, with fuel: \<open>Some s\<close> is the state in which the loop condition
  fails, and \<open>None\<close> says that the condition has held at each of the first \<open>fuel\<close> tests,
  so that the loop is still running.
\<close>

fun drag_loop :: "nat \<Rightarrow> real \<Rightarrow> real \<Rightarrow> trajectory \<Rightarrow> trajectory option" where
  "drag_loop 0 g drag_coefficient s = None"
| "drag_loop (Suc fuel) g drag_coefficient s =
     (if np_greater_equal (last (traj_y s)) (Fin 0)
      then drag_loop fuel g drag_coefficient (euler_step g drag_coefficient s)
      else Some s)"

text \<open>\<^verbatim>\<open>max(values)\<close> on a non-empty list of floats: a later item replaces the best one
  only when it compares greater.\<close>

definition py_max :: "float64 list \<Rightarrow> float64" where
  "py_max values =
     fold (\<lambda>item best. if np_less best item then item else best) (tl values) (hd values)"

definition projectile_motion_drag ::
  "nat \<Rightarrow> real \<Rightarrow> real \<Rightarrow> float64 \<Rightarrow> real \<Rightarrow> real \<Rightarrow> result_set option" where
  "projectile_motion_drag fuel initial_velocity angle height g drag_coefficient =
     (let theta = np_radians angle;
          v0x = initial_velocity * cos theta;
          v0y = initial_velocity * sin theta;
          start = \<lparr>traj_x = [Fin 0], traj_y = [height], traj_vx = [Fin v0x],
                   traj_vy = [Fin v0y], traj_t = [Fin 0]\<rparr>
      in map_option
           (\<lambda>s. [(''max_height'', Float (py_max (traj_y s))),
                 (''range'', Float (last (traj_x s))),
                 (''time_of_flight'', Float (last (traj_t s))),
                 (''trajectory_x'', FloatList (traj_x s)),
                 (''trajectory_y'', FloatList (traj_y s))])
           (drag_loop fuel g drag_coefficient start))"

section \<open>Thermodynamics\<close>

subsection \<open>\<open>ideal_gas_law\<close>\<close>

text \<open>
  \<^verbatim>\<open>
  def ideal_gas_law(pressure=None, volume=None, moles=None, temperature=None, gas_constant=8.314):
      if sum(x is None for x in [pressure, volume, moles, temperature]) != 1:
          raise ValueError("Exactly three parameters must be provided to solve for the fourth")
      if pressure is None:
          pressure = (moles * gas_constant * temperature) / volume
          return {"pressure": pressure}
      elif volume is None:
          volume = (moles * gas_constant * temperature) / pressure
          return {"volume": volume}
      elif moles is None:
          moles = (pressure * volume) / (gas_constant * temperature)
          return {"moles": moles}
      else:
          temperature = (pressure * volume) / (moles * gas_constant)
          return {"temperature": temperature}
  \<close>
  The reduced (Termux) variant is the same function with the message
  \<^verbatim>\<open>"Exactly three parameters must be provided"\<close>; the message is a parameter of the
  shared body.
\<close>

definition ideal_gas_law_body ::
  "string \<Rightarrow> real option \<Rightarrow> real option \<Rightarrow> real option \<Rightarrow> real option \<Rightarrow> real
     \<Rightarrow> py_error + result_set" where
  "ideal_gas_law_body message pressure volume moles temperature gas_constant =
     (if length (filter (\<lambda>x. x = None) [pressure, volume, moles, temperature]) \<noteq> 1 then
        Inl (ValueError message)
      else if pressure = None then
        py_bind (py_div (the moles * gas_constant * the temperature) (the volume))
          (\<lambda>p. Inr [(''pressure'', PyFloat p)])
      else if volume = None then
        py_bind (py_div (the moles * gas_constant * the temperature) (the pressure))
          (\<lambda>v. Inr [(''volume'', PyFloat v)])
      else if moles = None then
        py_bind (py_div (the pressure * the volume) (gas_constant * the temperature))
          (\<lambda>n. Inr [(''moles'', PyFloat n)])
      else
        py_bind (py_div (the pressure * the volume) (the moles * gas_constant))
          (\<lambda>t. Inr [(''temperature'', PyFloat t)]))"

definition exactly_three_message :: string where
  "exactly_three_message = ''Exactly three parameters must be provided to solve for the fourth''"

definition ideal_gas_law ::
  "real option \<Rightarrow> real option \<Rightarrow> real option \<Rightarrow> real option \<Rightarrow> real \<Rightarrow> py_error + result_set" where
  "ideal_gas_law = ideal_gas_law_body exactly_three_message"

definition termux_exactly_three_message :: string where
  "termux_exactly_three_message = ''Exactly three parameters must be provided''"

definition termux_ideal_gas_law ::
  "real option \<Rightarrow> real option \<Rightarrow> real option \<Rightarrow> real option \<Rightarrow> real \<Rightarrow> py_error + result_set" where
  "termux_ideal_gas_law = ideal_gas_law_body termux_exactly_three_message"

text \<open>The number of arguments among pressure, volume, moles and temperature that are given.\<close>

definition provided :: "real option list \<Rightarrow> nat" where
  "provided args = length (filter (\<lambda>x. x \<noteq> None) args)"

section \<open>Stress analysis\<close>

subsection \<open>\<open>fatigue_analysis\<close>\<close>

text \<open>
  \<^verbatim>\<open>
  def fatigue_analysis(stress_max, stress_min, ultimate_strength, endurance_limit,
                       surface_factor=0.9, size_factor=0.95, reliability_factor=0.897):
      stress_amp = (stress_max - stress_min) / 2
      stress_mean = (stress_max + stress_min) / 2
      Se = endurance_limit * surface_factor * size_factor * reliability_factor
      safety_factor = 1 / (stress_amp/Se + stress_mean/ultimate_strength)
      if safety_factor > 1:
          cycles = 1e6  # Infinite life
      else:
          b = -0.085  # Typical fatigue strength exponent
          cycles = (stress_amp / Se)**(1/b)
      return {'safety_factor': safety_factor, 'modified_endurance_limit': Se,
              'stress_amplitude': stress_amp, 'mean_stress': stress_mean,
              'cycles_to_failure': cycles}
  \<close>
  All of it is Python float arithmetic: each division can raise, and so can the power.
\<close>

definition basquin_exponent :: real where
  "basquin_exponent = 1 / (- 0.085)"

definition fatigue_analysis ::
  "real \<Rightarrow> real \<Rightarrow> real \<Rightarrow> real \<Rightarrow> real \<Rightarrow> real \<Rightarrow> real \<Rightarrow> py_error + result_set" where
  "fatigue_analysis stress_max stress_min ultimate_strength endurance_limit
       surface_factor size_factor reliability_factor =
     (let stress_amp = (stress_max - stress_min) / 2;
          stress_mean = (stress_max + stress_min) / 2;
          Se = endurance_limit * surface_factor * size_factor * reliability_factor
      in py_bind (py_div stress_amp Se) (\<lambda>amp_ratio.
         py_bind (py_div stress_mean ultimate_strength) (\<lambda>mean_ratio.
         py_bind (py_div 1 (amp_ratio + mean_ratio)) (\<lambda>safety_factor.
         py_bind (if safety_factor > 1 then Inr (PyFloat 1000000)
                  else py_bind (py_div stress_amp Se) (\<lambda>r. py_pow r basquin_exponent))
           (\<lambda>cycles.
         Inr [(''safety_factor'', PyFloat safety_factor),
              (''modified_endurance_limit'', PyFloat Se),
              (''stress_amplitude'', PyFloat stress_amp),
              (''mean_stress'', PyFloat stress_mean),
              (''cycles_to_failure'', cycles)])))))"



section \<open>Machine design\<close>

subsection \<open>\<open>shaft_design\<close>\<close>

text \<open>
  \<^verbatim>\<open>
  def shaft_design(torque, bending_moment, material_yield_strength, fatigue_strength=None,
                   safety_factor=2.0, stress_concentration_factor=1.5):
      if fatigue_strength is None:
          fatigue_strength = 0.5 * material_yield_strength
      Sy = material_yield_strength * 1e6
      Sf = fatigue_strength * 1e6
      Me = math.sqrt((stress_concentration_factor * bending_moment)**2 +
                    (0.75 * (stress_concentration_factor * torque)**2))
      d_static = math.pow((16 * safety_factor * Me) / (math.pi * Sy), 1/3)
      d_fatigue = math.pow((16 * safety_factor * Me) / (math.pi * Sf), 1/3)
      diameter = max(d_static, d_fatigue)
      std_sizes = [10, 12, 15, 17, 20, 25, 30, 35, 40, 45, 50, 55, 60, 70, 80, 90, 100]
      diameter_mm = diameter * 1000
      actual_diameter = min(size for size in std_sizes if size >= diameter_mm) / 1000
      actual_stress = (32 * Me) / (math.pi * actual_diameter**3)
      safety_margin = min(Sy, Sf) / actual_stress
      return {"required_diameter": diameter, "actual_diameter": actual_diameter,
              "equivalent_moment": Me, "maximum_stress": actual_stress / 1e6,
              "actual_safety_factor": safety_margin}
  \<close>
  The two squares are Python powers and can raise \<open>OverflowError\<close>. The cube
  \<^verbatim>\<open>actual_diameter**3\<close> cannot: \<^verbatim>\<open>actual_diameter\<close> is an entry of the table divided by
  1000, so it is at most 0.1.
\<close>

definition std_sizes :: "int list" where
  "std_sizes = [10, 12, 15, 17, 20, 25, 30, 35, 40, 45, 50, 55, 60, 70, 80, 90, 100]"

definition shaft_design ::
  "real \<Rightarrow> real \<Rightarrow> real \<Rightarrow> real option \<Rightarrow> real \<Rightarrow> real \<Rightarrow> py_error + result_set" where
  "shaft_design torque bending_moment material_yield_strength fatigue_strength
       safety_factor stress_concentration_factor =
     (let fatigue_strength' =
            (case fatigue_strength of None \<Rightarrow> 0.5 * material_yield_strength | Some f \<Rightarrow> f);
          Sy = material_yield_strength * 1000000;
          Sf = fatigue_strength' * 1000000
      in py_bind (py_square (stress_concentration_factor * bending_moment)) (\<lambda>bending_sq.
         py_bind (py_square (stress_concentration_factor * torque)) (\<lambda>torque_sq.
         py_bind (math_sqrt (bending_sq + 0.75 * torque_sq)) (\<lambda>Me.
         py_bind (py_div (16 * safety_factor * Me) (pi * Sy)) (\<lambda>q_static.
         py_bind (math_pow q_static (1 / 3)) (\<lambda>d_static.
         py_bind (py_div (16 * safety_factor * Me) (pi * Sf)) (\<lambda>q_fatigue.
         py_bind (math_pow q_fatigue (1 / 3)) (\<lambda>d_fatigue.
         let diameter = max d_static d_fatigue;
             diameter_mm = diameter * 1000
         in py_bind (py_min (filter (\<lambda>size. diameter_mm \<le> real_of_int size) std_sizes)) (\<lambda>size.
            let actual_diameter = real_of_int size / 1000
            in py_bind (py_div (32 * Me) (pi * actual_diameter ^ 3)) (\<lambda>actual_stress.
               py_bind (py_div (min Sy Sf) actual_stress) (\<lambda>safety_margin.
               Inr [(''required_diameter'', PyFloat diameter),
                    (''actual_diameter'', PyFloat actual_diameter),
                    (''equivalent_moment'', PyFloat Me),
                    (''maximum_stress'', PyFloat (actual_stress / 1000000)),
                    (''actual_safety_factor'', PyFloat safety_margin)])))))))))))"

text \<open>
  The governing required diameter: the value of \<^verbatim>\<open>diameter\<close> in \<open>shaft_design\<close>, computed by
  the statements up to \<^verbatim>\<open>diameter = max(d_static, d_fatigue)\<close>.
\<close>

definition required_diameter ::
  "real \<Rightarrow> real \<Rightarrow> real \<Rightarrow> real option \<Rightarrow> real \<Rightarrow> real \<Rightarrow> py_error + real" where
  "required_diameter torque bending_moment material_yield_strength fatigue_strength
       safety_factor stress_concentration_factor =
     (let fatigue_strength' =
            (case fatigue_strength of None \<Rightarrow> 0.5 * material_yield_strength | Some f \<Rightarrow> f);
          Sy = material_yield_strength * 1000000;
          Sf = fatigue_strength' * 1000000
      in py_bind (py_square (stress_concentration_factor * bending_moment)) (\<lambda>bending_sq.
         py_bind (py_square (stress_concentration_factor * torque)) (\<lambda>torque_sq.
         py_bind (math_sqrt (bending_sq + 0.75 * torque_sq)) (\<lambda>Me.
         py_bind (py_div (16 * safety_factor * Me) (pi * Sy)) (\<lambda>q_static.
         py_bind (math_pow q_static (1 / 3)) (\<lambda>d_static.
         py_bind (py_div (16 * safety_factor * Me) (pi * Sf)) (\<lambda>q_fatigue.
         py_bind (math_pow q_fatigue (1 / 3)) (\<lambda>d_fatigue.
         Inr (max d_static d_fatigue)))))))))"

text \<open>The ASME equivalent moment \<^verbatim>\<open>Me\<close> of \<open>shaft_design\<close>.\<close>

definition equivalent_moment :: "real \<Rightarrow> real \<Rightarrow> real \<Rightarrow> real" where
  "equivalent_moment stress_concentration_factor bending_moment torque =
     sqrt ((stress_concentration_factor * bending_moment)\<^sup>2 +
           0.75 * (stress_concentration_factor * torque)\<^sup>2)"

text \<open>The strengths \<^verbatim>\<open>Sy\<close> and \<^verbatim>\<open>Sf\<close> of \<open>shaft_design\<close>, in pascals.\<close>

definition shaft_Sy :: "real \<Rightarrow> real" where
  "shaft_Sy material_yield_strength = material_yield_strength * 1000000"

definition shaft_Sf :: "real \<Rightarrow> real option \<Rightarrow> real" where
  "shaft_Sf material_yield_strength fatigue_strength =
     (case fatigue_strength of None \<Rightarrow> 0.5 * material_yield_strength | Some f \<Rightarrow> f) * 1000000"

section \<open>Materials\<close>

text \<open>
  \<^verbatim>\<open>
  MATERIALS_DB = {"STEEL_1045": {...}, "AL_6061": {...}, "BRASS_360": {...}}

  def get_material_properties(material_code):
      return MATERIALS_DB.get(material_code, {})

  def calculate_stress_strain(force, area, material_code):
      properties = get_material_properties(material_code)
      if not properties:
          raise ValueError("Material not found in database")
      stress = force / area
      strain = stress / (properties["elastic_modulus"] * 1e9)
      safety_factor = properties["yield_strength"] * 1e6 / stress
      return {"stress": stress, "strain": strain, "safety_factor": safety_factor}
  \<close>
  \<open>thermal_expansion\<close>, \<open>heat_conduction\<close> and \<open>material_cost_estimate\<close> start with the same
  lookup and the same test.
\<close>

definition MATERIALS_DB :: "(string \<times> result_set) list" where
  "MATERIALS_DB =
     [(''STEEL_1045'',
         [(''name'', Str ''Steel AISI 1045''),
          (''density'', PyFloat 7850),
          (''elastic_modulus'', PyFloat 205),
          (''poisson_ratio'', PyFloat 0.29),
          (''yield_strength'', PyFloat 505),
          (''ultimate_strength'', PyFloat 585),
          (''thermal_conductivity'', PyFloat 49.8),
          (''thermal_expansion'', PyFloat (11.5 / 1000000))]),
      (''AL_6061'',
         [(''name'', Str ''Aluminum 6061-T6''),
          (''density'', PyFloat 2700),
          (''elastic_modulus'', PyFloat 68.9),
          (''poisson_ratio'', PyFloat 0.33),
          (''yield_strength'', PyFloat 276),
          (''ultimate_strength'', PyFloat 310),
          (''thermal_conductivity'', PyFloat 167),
          (''thermal_expansion'', PyFloat (23.6 / 1000000))]),
      (''BRASS_360'',
         [(''name'', Str ''Brass C360''),
          (''density'', PyFloat 8500),
          (''elastic_modulus'', PyFloat 97),
          (''poisson_ratio'', PyFloat 0.34),
          (''yield_strength'', PyFloat 310),
          (''ultimate_strength'', PyFloat 379),
          (''thermal_conductivity'', PyFloat 115),
          (''thermal_expansion'', PyFloat (20.3 / 1000000))])]"

text \<open>\<^verbatim>\<open>d.get(key, {})\<close>, and \<^verbatim>\<open>d[key]\<close> read as a number.\<close>

definition get_material_properties :: "string \<Rightarrow> py_error + result_set" where
  "get_material_properties material_code =
     Inr (case map_of MATERIALS_DB material_code of None \<Rightarrow> [] | Some props \<Rightarrow> props)"

definition py_getitem :: "result_set \<Rightarrow> string \<Rightarrow> py_error + real" where
  "py_getitem d k =
     (case map_of d k of
        None \<Rightarrow> Inl (KeyError k)
      | Some (Float (Fin x)) \<Rightarrow> Inr x
      | Some _ \<Rightarrow> Inl TypeError)"

definition not_found :: py_error where
  "not_found = ValueError ''Material not found in database''"

definition calculate_stress_strain :: "real \<Rightarrow> real \<Rightarrow> string \<Rightarrow> py_error + result_set" where
  "calculate_stress_strain force area material_code =
     py_bind (get_material_properties material_code) (\<lambda>properties.
       if properties = [] then Inl not_found
       else
         py_bind (py_div force area) (\<lambda>stress.
         py_bind (py_getitem properties ''elastic_modulus'') (\<lambda>e.
         py_bind (py_div stress (e * 1000000000)) (\<lambda>strain.
         py_bind (py_getitem properties ''yield_strength'') (\<lambda>y.
         py_bind (py_div (y * 1000000) stress) (\<lambda>safety_factor.
         Inr [(''stress'', PyFloat stress),
              (''strain'', PyFloat strain),
              (''safety_factor'', PyFloat safety_factor)]))))))"

text \<open>
  \<^verbatim>\<open>
  def thermal_expansion(material_code, initial_length, temperature_change):
      properties = get_material_properties(material_code)
      if not properties:
          raise ValueError("Material not found in database")
      delta_l = initial_length * properties["thermal_expansion"] * temperature_change
      final_length = initial_length + delta_l
      return {"length_change": delta_l, "final_length": final_length,
              "strain": delta_l / initial_length}
  \<close>
\<close>

definition thermal_expansion :: "string \<Rightarrow> real \<Rightarrow> real \<Rightarrow> py_error + result_set" where
  "thermal_expansion material_code initial_length temperature_change =
     py_bind (get_material_properties material_code) (\<lambda>properties.
       if properties = [] then Inl not_found
       else
         py_bind (py_getitem properties ''thermal_expansion'') (\<lambda>alpha.
         let delta_l = initial_length * alpha * temperature_change;
             final_length = initial_length + delta_l
         in py_bind (py_div delta_l initial_length) (\<lambda>strain.
            Inr [(''length_change'', PyFloat delta_l),
                 (''final_length'', PyFloat final_length),
                 (''strain'', PyFloat strain)])))"

text \<open>
  \<^verbatim>\<open>
  def heat_conduction(material_code, area, thickness, temperature_difference):
      properties = get_material_properties(material_code)
      if not properties:
          raise ValueError("Material not found in database")
      heat_flux = properties["thermal_conductivity"] * area * temperature_difference / thickness
      thermal_resistance = thickness / (properties["thermal_conductivity"] * area)
      return {"heat_flux": heat_flux, "thermal_resistance": thermal_resistance}
  \<close>
\<close>

definition heat_conduction :: "string \<Rightarrow> real \<Rightarrow> real \<Rightarrow> real \<Rightarrow> py_error + result_set" where
  "heat_conduction material_code area thickness temperature_difference =
     py_bind (get_material_properties material_code) (\<lambda>properties.
       if properties = [] then Inl not_found
       else
         py_bind (py_getitem properties ''thermal_conductivity'') (\<lambda>k.
         py_bind (py_div (k * area * temperature_difference) thickness) (\<lambda>heat_flux.
         py_bind (py_getitem properties ''thermal_conductivity'') (\<lambda>k'.
         py_bind (py_div thickness (k' * area)) (\<lambda>thermal_resistance.
         Inr [(''heat_flux'', PyFloat heat_flux),
              (''thermal_resistance'', PyFloat thermal_resistance)])))))"

text \<open>
  \<^verbatim>\<open>
  def material_cost_estimate(material_code, volume, processing_factor=1.0):
      material_costs = {"STEEL_1045": 2.5, "AL_6061": 4.8, "BRASS_360": 7.2}
      properties = get_material_properties(material_code)
      if not properties:
          raise ValueError("Material not found in database")
      mass = properties["density"] * volume
      base_cost = mass * material_costs.get(material_code, 0)
      total_cost = base_cost * processing_factor
      return {"mass": mass, "material_cost": base_cost, "total_cost": total_cost}
  \<close>
\<close>

definition material_costs :: "(string \<times> real) list" where
  "material_costs = [(''STEEL_1045'', 2.5), (''AL_6061'', 4.8), (''BRASS_360'', 7.2)]"

definition material_cost_estimate :: "string \<Rightarrow> real \<Rightarrow> real \<Rightarrow> py_error + result_set" where
  "material_cost_estimate material_code volume processing_factor =
     py_bind (get_material_properties material_code) (\<lambda>properties.
       if properties = [] then Inl not_found
       else
         py_bind (py_getitem properties ''density'') (\<lambda>density.
         let mass = density * volume;
             base_cost = mass * (case map_of material_costs material_code of
                                   None \<Rightarrow> 0 | Some c \<Rightarrow> c);
             total_cost = base_cost * processing_factor
         in Inr [(''mass'', PyFloat mass),
                 (''material_cost'', PyFloat base_cost),
                 (''total_cost'', PyFloat total_cost)]))"


section \<open>Formulas that dispatch on a variant name\<close>

text \<open>A Python string literal as \<^verbatim>\<open>repr\<close> prints it, and the \<^verbatim>\<open>str\<close> of a list of strings.\<close>

definition quoted :: "string \<Rightarrow> string" where
  "quoted s = [CHR 0x27] @ s @ [CHR 0x27]"

fun comma_separated :: "string list \<Rightarrow> string" where
  "comma_separated [] = []"
| "comma_separated [s] = s"
| "comma_separated (s # rest) = s @ '', '' @ comma_separated rest"

definition py_str_list :: "string list \<Rightarrow> string" where
  "py_str_list names = ''['' @ comma_separated (map quoted names) @ '']''"

text \<open>The product \<^verbatim>\<open>k * v\<close> of a finite float64 \<open>k\<close> and a Python number \<open>v\<close>.\<close>

definition np_scale :: "real \<Rightarrow> pyval \<Rightarrow> py_error + pyval" where
  "np_scale k v =
     (case v of
        Float f \<Rightarrow> Inr (Float (np_mul (Fin k) f))
      | Complex z \<Rightarrow> Inr (Complex (of_real k * z))
      | _ \<Rightarrow> Inl TypeError)"

subsection \<open>\<open>pressure_vessel_stress\<close>\<close>

text \<open>
  \<^verbatim>\<open>
  def pressure_vessel_stress(pressure, radius, thickness, vessel_type='thin_cylinder'):
      if vessel_type == 'thin_cylinder':
          hoop_stress = pressure * radius / thickness
          longitudinal_stress = pressure * radius / (2 * thickness)
          return {'hoop_stress': hoop_stress, 'longitudinal_stress': longitudinal_stress,
                  'von_mises_stress': np.sqrt(hoop_stress**2 - hoop_stress*longitudinal_stress
                                              + longitudinal_stress**2)}
      elif vessel_type == 'thick_cylinder':
          r_o = radius + thickness
          r_i = radius
          c = r_o**2 / r_i**2
          hoop_stress_inner = pressure * (c + 1) / (c - 1)
          hoop_stress_outer = 2 * pressure / (c - 1)
          radial_stress_inner = -pressure
          radial_stress_outer = 0
          return {'hoop_stress_inner': ..., 'hoop_stress_outer': ...,
                  'radial_stress_inner': ..., 'radial_stress_outer': ...}
      elif vessel_type == 'sphere':
          hoop_stress = pressure * radius / (2 * thickness)
          return {'hoop_stress': hoop_stress, 'von_mises_stress': hoop_stress}
      else:
          raise ValueError("Invalid vessel type. Choose 'thin_cylinder', 'thick_cylinder', or 'sphere'")
  \<close>
\<close>

definition vessel_types :: "string list" where
  "vessel_types = [''thin_cylinder'', ''thick_cylinder'', ''sphere'']"

definition vessel_message :: string where
  "vessel_message =
     ''Invalid vessel type. Choose '' @ quoted ''thin_cylinder'' @ '', '' @
     quoted ''thick_cylinder'' @ '', or '' @ quoted ''sphere''"

definition pressure_vessel_stress :: "real \<Rightarrow> real \<Rightarrow> real \<Rightarrow> string \<Rightarrow> py_error + result_set" where
  "pressure_vessel_stress pressure radius thickness vessel_type =
     (if vessel_type = ''thin_cylinder'' then
        py_bind (py_div (pressure * radius) thickness) (\<lambda>hoop_stress.
        py_bind (py_div (pressure * radius) (2 * thickness)) (\<lambda>longitudinal_stress.
        py_bind (py_square hoop_stress) (\<lambda>hoop_sq.
        py_bind (py_square longitudinal_stress) (\<lambda>longitudinal_sq.
        Inr [(''hoop_stress'', PyFloat hoop_stress),
             (''longitudinal_stress'', PyFloat longitudinal_stress),
             (''von_mises_stress'',
                Float (np_sqrt (Fin (hoop_sq - hoop_stress * longitudinal_stress
                                       + longitudinal_sq))))]))))
      else if vessel_type = ''thick_cylinder'' then
        (let r_o = radius + thickness; r_i = radius
         in py_bind (py_square r_o) (\<lambda>r_o_sq.
            py_bind (py_square r_i) (\<lambda>r_i_sq.
            py_bind (py_div r_o_sq r_i_sq) (\<lambda>c.
            py_bind (py_div (pressure * (c + 1)) (c - 1)) (\<lambda>hoop_stress_inner.
            py_bind (py_div (2 * pressure) (c - 1)) (\<lambda>hoop_stress_outer.
            Inr [(''hoop_stress_inner'', PyFloat hoop_stress_inner),
                 (''hoop_stress_outer'', PyFloat hoop_stress_outer),
                 (''radial_stress_inner'', PyFloat (- pressure)),
                 (''radial_stress_outer'', PyFloat 0)]))))))
      else if vessel_type = ''sphere'' then
        py_bind (py_div (pressure * radius) (2 * thickness)) (\<lambda>hoop_stress.
        Inr [(''hoop_stress'', PyFloat hoop_stress),
             (''von_mises_stress'', PyFloat hoop_stress)])
      else Inl (ValueError vessel_message))"

subsection \<open>\<open>thermal_stress\<close>\<close>

text \<open>
  \<^verbatim>\<open>
  def thermal_stress(temperature_change, thermal_expansion, youngs_modulus, constraint='full'):
      if constraint == 'full':
          stress = -thermal_expansion * youngs_modulus * temperature_change
          strain = 0
      else:  # partial constraint
          stress = -0.5 * thermal_expansion * youngs_modulus * temperature_change
          strain = 0.5 * thermal_expansion * temperature_change
      return {'thermal_stress': stress, 'thermal_strain': strain}
  \<close>
  The parameter \<^verbatim>\<open>thermal_expansion\<close> is written \<open>expansion\<close> here, since the materials
  module has a function of that name.
\<close>

definition thermal_stress :: "real \<Rightarrow> real \<Rightarrow> real \<Rightarrow> string \<Rightarrow> py_error + result_set" where
  "thermal_stress temperature_change expansion youngs_modulus constraint =
     (if constraint = ''full'' then
        Inr [(''thermal_stress'', PyFloat (- expansion * youngs_modulus * temperature_change)),
             (''thermal_strain'', PyFloat 0)]
      else
        Inr [(''thermal_stress'',
                PyFloat (- 0.5 * expansion * youngs_modulus * temperature_change)),
             (''thermal_strain'', PyFloat (0.5 * expansion * temperature_change))])"

subsection \<open>\<open>open_channel_flow\<close>\<close>

text \<open>
  \<^verbatim>\<open>
  def open_channel_flow(channel_width, flow_depth, slope, manning_n, channel_type='rectangular'):
      if channel_type == 'rectangular':
          area = channel_width * flow_depth
          wetted_perimeter = channel_width + 2*flow_depth
          hydraulic_radius = area / wetted_perimeter
          velocity = (1/manning_n) * hydraulic_radius**(2/3) * np.sqrt(slope)
          flow_rate = velocity * area
          froude = velocity / np.sqrt(9.81 * flow_depth)
          return {'flow_rate': flow_rate, 'velocity': velocity, 'froude_number': froude,
                  'flow_type': 'subcritical' if froude < 1 else 'supercritical'}
      else:
          raise ValueError("Only rectangular channels are currently supported")
  \<close>
  With a negative hydraulic radius the power is a Python complex number, the velocity
  and the Froude number are complex, and the comparison \<^verbatim>\<open>froude < 1\<close> raises \<open>TypeError\<close>.
  Otherwise the velocity is a float64 and nothing after the two Python divisions raises.
\<close>

definition channel_message :: string where
  "channel_message = ''Only rectangular channels are currently supported''"

definition open_channel_flow ::
  "real \<Rightarrow> real \<Rightarrow> real \<Rightarrow> real \<Rightarrow> string \<Rightarrow> py_error + result_set" where
  "open_channel_flow channel_width flow_depth slope manning_n channel_type =
     (if channel_type = ''rectangular'' then
        (let area = channel_width * flow_depth;
             wetted_perimeter = channel_width + 2 * flow_depth
         in py_bind (py_div area wetted_perimeter) (\<lambda>hydraulic_radius.
            py_bind (py_div 1 manning_n) (\<lambda>inv_n.
            py_bind (py_pow hydraulic_radius (2 / 3)) (\<lambda>radius_power.
              case radius_power of
                Float rp \<Rightarrow>
                  (let velocity = np_mul (np_mul (Fin inv_n) rp) (np_sqrt (Fin slope));
                       flow_rate = np_mul velocity (Fin area);
                       froude = np_div velocity (np_sqrt (Fin (9.81 * flow_depth)))
                   in Inr [(''flow_rate'', Float flow_rate),
                           (''velocity'', Float velocity),
                           (''froude_number'', Float froude),
                           (''flow_type'',
                              Str (if np_less froude (Fin 1) then ''subcritical''
                                   else ''supercritical''))])
              | _ \<Rightarrow> Inl TypeError))))
      else Inl (ValueError channel_message))"

subsection \<open>\<open>weir_flow\<close>\<close>

text \<open>
  \<^verbatim>\<open>
  def weir_flow(weir_height, weir_width, head, weir_type='rectangular'):
      g = 9.81
      if weir_type == 'rectangular':
          discharge_coeff = 0.61
          flow_rate = (2/3) * discharge_coeff * weir_width * np.sqrt(2*g) * head**(3/2)
          return {'flow_rate': flow_rate, 'discharge_coefficient': discharge_coeff}
      elif weir_type == 'v-notch':
          theta = np.radians(90)
          discharge_coeff = 0.59
          flow_rate = (8/15) * discharge_coeff * np.tan(theta/2) * np.sqrt(2*g) * head**(5/2)
          return {'flow_rate': flow_rate, 'discharge_coefficient': discharge_coeff}
      else:
          raise ValueError("Invalid weir type. Choose 'rectangular' or 'v-notch'")
  \<close>
\<close>

definition weir_types :: "string list" where
  "weir_types = [''rectangular'', ''v-notch'']"

definition weir_message :: string where
  "weir_message =
     ''Invalid weir type. Choose '' @ quoted ''rectangular'' @ '' or '' @ quoted ''v-notch''"

definition weir_flow :: "real \<Rightarrow> real \<Rightarrow> real \<Rightarrow> string \<Rightarrow> py_error + result_set" where
  "weir_flow weir_height weir_width head weir_type =
     (let g = 9.81 in
      if weir_type = ''rectangular'' then
        (let discharge_coeff = 0.61
         in py_bind (py_pow head (3 / 2)) (\<lambda>head_power.
            py_bind (np_scale (2 / 3 * discharge_coeff * weir_width * sqrt (2 * g)) head_power)
              (\<lambda>flow_rate.
            Inr [(''flow_rate'', flow_rate),
                 (''discharge_coefficient'', PyFloat discharge_coeff)])))
      else if weir_type = ''v-notch'' then
        (let theta = np_radians 90; discharge_coeff = 0.59
         in py_bind (py_pow head (5 / 2)) (\<lambda>head_power.
            py_bind (np_scale (8 / 15 * discharge_coeff * tan (theta / 2) * sqrt (2 * g))
                       head_power) (\<lambda>flow_rate.
            Inr [(''flow_rate'', flow_rate),
                 (''discharge_coefficient'', PyFloat discharge_coeff)])))
      else Inl (ValueError weir_message))"

subsection \<open>\<open>cam_analysis\<close>\<close>

text \<open>
  \<^verbatim>\<open>
  def cam_analysis(base_circle_radius, lift, angle, cam_type='simple_harmonic'):
      def simple_harmonic_lift(theta): return lift * (1 - np.cos(theta)) / 2
      def cycloidal_lift(theta): return lift * (theta/(2*np.pi) - np.sin(theta)/(2*np.pi))
      def parabolic_lift(theta):
          if theta < np.pi: return 2 * lift * (theta/np.pi)**2
          else: return 2 * lift * (2 - theta/np.pi)**2
      lift_functions = {'simple_harmonic': simple_harmonic_lift, 'cycloidal': cycloidal_lift,
                        'parabolic': parabolic_lift}
      if cam_type not in lift_functions:
          raise ValueError(f"Unsupported cam type. Choose from: {list(lift_functions.keys())}")
      lift_func = lift_functions[cam_type]
      if isinstance(angle, (int, float)):
          theta = np.radians(angle)
          displacement = lift_func(theta)
          return {'displacement': displacement, 'base_circle_radius': base_circle_radius,
                  'total_radius': base_circle_radius + displacement}
      else:
          theta = np.radians(np.array(angle))
          displacement = [lift_func(t) for t in theta]
          return {'displacement': displacement, 'base_circle_radius': base_circle_radius,
                  'total_radius': [base_circle_radius + d for d in displacement]}
  \<close>
\<close>

definition simple_harmonic_lift :: "real \<Rightarrow> real \<Rightarrow> real" where
  "simple_harmonic_lift lift theta = lift * (1 - cos theta) / 2"

definition cycloidal_lift :: "real \<Rightarrow> real \<Rightarrow> real" where
  "cycloidal_lift lift theta = lift * (theta / (2 * pi) - sin theta / (2 * pi))"

definition parabolic_lift :: "real \<Rightarrow> real \<Rightarrow> real" where
  "parabolic_lift lift theta =
     (if theta < pi then 2 * lift * (theta / pi)\<^sup>2 else 2 * lift * (2 - theta / pi)\<^sup>2)"

definition lift_functions :: "(string \<times> (real \<Rightarrow> real \<Rightarrow> real)) list" where
  "lift_functions =
     [(''simple_harmonic'', simple_harmonic_lift),
      (''cycloidal'', cycloidal_lift),
      (''parabolic'', parabolic_lift)]"

definition cam_message :: string where
  "cam_message = ''Unsupported cam type. Choose from: '' @ py_str_list (map fst lift_functions)"

definition cam_analysis :: "real \<Rightarrow> real \<Rightarrow> angle_arg \<Rightarrow> string \<Rightarrow> py_error + result_set" where
  "cam_analysis base_circle_radius lift angle cam_type =
     (case map_of lift_functions cam_type of
        None \<Rightarrow> Inl (ValueError cam_message)
      | Some lift_func \<Rightarrow>
          (case angle of
             Scalar ang \<Rightarrow>
               (let theta = np_radians ang;
                    displacement = lift_func lift theta
                in Inr [(''displacement'', PyFloat displacement),
                        (''base_circle_radius'', PyFloat base_circle_radius),
                        (''total_radius'', PyFloat (base_circle_radius + displacement))])
           | Sequence angs \<Rightarrow>
               (let theta = map np_radians angs;
                    displacement = map (lift_func lift) theta
                in Inr [(''displacement'', FloatList (map Fin displacement)),
                        (''base_circle_radius'', PyFloat base_circle_radius),
                        (''total_radius'',
                           FloatList (map (\<lambda>d. Fin (base_circle_radius + d)) displacement))])))"

subsection \<open>\<open>heat_transfer\<close>\<close>

text \<open>
  \<^verbatim>\<open>
  def heat_transfer(area, k, temp_diff, thickness, mode="conduction"):
      results = {}
      if mode == "conduction":
          q = k * area * temp_diff / thickness
          results["heat_transfer_rate"] = q
          results["thermal_resistance"] = thickness / (k * area)
      elif mode == "convection":
          q = k * area * temp_diff
          results["heat_transfer_rate"] = q
          results["thermal_resistance"] = 1 / (k * area)
      elif mode == "radiation":
          sigma = 5.67e-8
          q = sigma * area * k * (temp_diff**4)
          results["heat_transfer_rate"] = q
      return results
  \<close>
\<close>

definition heat_transfer :: "real \<Rightarrow> real \<Rightarrow> real \<Rightarrow> real \<Rightarrow> string \<Rightarrow> py_error + result_set" where
  "heat_transfer area k temp_diff thickness mode =
     (if mode = ''conduction'' then
        py_bind (py_div (k * area * temp_diff) thickness) (\<lambda>q.
        py_bind (py_div thickness (k * area)) (\<lambda>resistance.
        Inr [(''heat_transfer_rate'', PyFloat q), (''thermal_resistance'', PyFloat resistance)]))
      else if mode = ''convection'' then
        (let q = k * area * temp_diff
         in py_bind (py_div 1 (k * area)) (\<lambda>resistance.
            Inr [(''heat_transfer_rate'', PyFloat q), (''thermal_resistance'', PyFloat resistance)]))
      else if mode = ''radiation'' then
        (let sigma = 5.67 / 100000000
         in py_bind (py_int_pow temp_diff 4) (\<lambda>temp_diff_4.
            let q = sigma * area * k * temp_diff_4
            in Inr [(''heat_transfer_rate'', PyFloat q)]))
      else Inr [])"


section \<open>Properties\<close>

subsection \<open>Basic facts about the primitives\<close>

lemma py_bind_simps [simp]:
  "py_bind (Inl e) f = Inl e" "py_bind (Inr x) f = f x"
  by (simp_all add: py_bind_def)

lemma py_bind_eq_Inr:
  "py_bind m f = Inr r \<longleftrightarrow> (\<exists>x. m = Inr x \<and> f x = Inr r)"
  by (cases m) simp_all

lemma py_div_eq_Inr: "py_div x y = Inr r \<longleftrightarrow> y \<noteq> 0 \<and> r = x / y"
  by (auto simp add: py_div_def)

text \<open>A \<open>nan\<close> operand makes the result \<open>nan\<close>.\<close>

lemma np_nan_absorbs [simp]:
  "np_add a NaN = NaN" "np_mul a NaN = NaN" "np_div a NaN = NaN"
  "np_sub a NaN = NaN" "np_sub NaN a = NaN" "np_arctan2 a NaN = NaN"
  by (cases a; simp add: np_sub_def)+

subsection \<open>Powers of Python floats\<close>

lemma float_max_large: "10 ^ 300 \<le> float_max"
  by (simp add: float_max_def)

lemma py_square_in_range: "x\<^sup>2 \<le> float_max \<Longrightarrow> py_square x = Inr (x\<^sup>2)"
  by (simp add: py_square_def)

lemma py_square_overflow: "float_max < x\<^sup>2 \<Longrightarrow> py_square x = Inl OverflowError"
  by (simp add: py_square_def)

lemma py_square_eq_Inr: "py_square x = Inr r \<longleftrightarrow> x\<^sup>2 \<le> float_max \<and> r = x\<^sup>2"
  by (auto simp add: py_square_def)

lemma py_square_small: "x\<^sup>2 \<le> 10 ^ 300 \<Longrightarrow> py_square x = Inr (x\<^sup>2)"
  using float_max_large by (simp add: py_square_def)

lemma py_square_int_pow: "py_square x = py_int_pow x 2"
  by (simp add: py_square_def py_int_pow_def)

text \<open>\<open>py_square\<close> is \<open>py_pow\<close> at the exponent 2.\<close>

lemma py_pow_two:
  "py_pow x 2 = (case py_square x of Inl e \<Rightarrow> Inl e | Inr r \<Rightarrow> Inr (PyFloat r))"
proof -
  have p: "\<bar>x\<bar> powr 2 = x\<^sup>2" if "x \<noteq> 0"
    using that powr_numeral [of "\<bar>x\<bar>" "Num.Bit0 Num.One"] by simp
  have f: "\<lfloor>2::real\<rfloor> = 2" by simp
  show ?thesis
  proof (cases "x = 0")
    case True
    then show ?thesis using float_max_large by (simp add: py_pow_def py_square_def)
  next
    case False
    then have "x powr 2 = x\<^sup>2" if "0 < x"
      using that p by simp
    with False p show ?thesis
      by (auto simp add: py_pow_def py_square_def f not_less)
  qed
qed

subsection \<open>\<open>solve_motion\<close>\<close>

text \<open>
  Claim C4 says that \<open>solve_motion\<close> returns the displacement and the final velocity for
  all provided \<open>(v, a, t)\<close>. Not for all: the displacement is computed with the Python
  power \<^verbatim>\<open>time**2\<close>, and with \<open>v = a = 1\<close> and \<open>t = 10\<^bsup>200\<^esup>\<close> the square is beyond the
  largest double, so the call raises \<open>OverflowError\<close> and returns nothing.
\<close>

theorem solve_motion_overflow_counterexample:
  "solve_motion (Some 1) (Some 1) (Some (10 ^ 200)) None = Inl OverflowError"
  by (simp add: solve_motion_def py_square_def float_max_def)

text \<open>
  Claim C4, amended. When velocity \<open>v\<close>, acceleration \<open>a\<close> and time \<open>t\<close> are all provided
  (whether or not a displacement is passed as well) and \<open>t\<^sup>2\<close> is within the range of a
  double, \<open>solve_motion\<close> returns a result whose \<open>displacement\<close> is \<open>v t + 0.5 a t\<^sup>2\<close> and
  whose \<open>final_velocity\<close> is \<open>v + a t\<close>; when \<open>t\<^sup>2\<close> is beyond that range the call raises
  \<open>OverflowError\<close>. For every combination of provided and omitted arguments that is not
  one of the supported combinations it returns the empty result set.
\<close>

theorem solve_motion_spec:
  "solve_motion (Some v) (Some a) (Some t) s =
     (if float_max < t\<^sup>2 then Inl OverflowError
      else Inr [(''displacement'', PyFloat (v * t + 0.5 * a * t\<^sup>2)),
                (''final_velocity'', PyFloat (v + a * t))])
   \<and> (\<not> motion_supported velocity acceleration time displacement \<longrightarrow>
        solve_motion velocity acceleration time displacement = Inr [])"
  by (simp add: solve_motion_def motion_supported_def py_square_def)

theorem solve_motion_spec_witness:
  "solve_motion (Some 2) (Some 3) (Some 4) None =
     Inr [(''displacement'', PyFloat 32), (''final_velocity'', PyFloat 14)]
   \<and> solve_motion (Some 2) (Some 3) (Some (10 ^ 200)) (Some 1) = Inl OverflowError
   \<and> \<not> motion_supported (Some 2) None (Some 4) (Some 1)
   \<and> solve_motion (Some 2) None (Some 4) (Some 1) = Inr []"
  using solve_motion_spec [of 2 3 4 None "Some 2" None "Some 4" "Some 1"]
    solve_motion_spec [of 2 3 "10 ^ 200" "Some 1" "Some 2" None "Some 4" "Some 1"]
  by (simp add: motion_supported_def float_max_def)

subsection \<open>\<open>four_bar_mechanism\<close>\<close>

lemma solve_position_overflow:
  assumes "squares_overflow a b c d"
  shows "solve_position a b c d theta = Inl OverflowError"
  using assms by (auto simp add: solve_position_def squares_overflow_def py_square_def Let_def)

lemma solve_position_in_range:
  assumes "\<not> squares_overflow a b c d"
  shows "solve_position a b c d theta =
           (let A = four_bar_A a d theta;
                B = four_bar_B a d theta;
                C = four_bar_C a b c d theta;
                beta = np_mul (Fin 2)
                         (np_arctan (np_div (np_add (Fin (- B)) (np_sqrt (Fin (A\<^sup>2 + B\<^sup>2 - C\<^sup>2))))
                                            (Fin (C - A))));
                gamma = np_arctan2
                          (np_sub (np_mul (Fin c) (np_sin beta)) (Fin (a * sin theta)))
                          (np_sub (np_mul (Fin c) (np_cos beta)) (Fin (a * cos theta)))
            in Inr (beta, gamma))"
  using assms
  by (simp add: solve_position_def squares_overflow_def py_square_def Let_def four_bar_C_def
      not_less)

lemma solve_position_nan:
  assumes "\<not> squares_overflow a b c d" and "discriminant a b c d theta < 0"
  shows "solve_position a b c d theta = Inr (NaN, NaN)"
  using assms(2) by (simp add: solve_position_in_range [OF assms(1)] discriminant_def Let_def)


lemma solve_positions_overflow:
  assumes "squares_overflow a b c d" and "angs \<noteq> []"
  shows "solve_positions a b c d angs = Inl OverflowError"
  using assms by (cases angs) (simp_all add: solve_position_overflow)

lemma solve_positions_nan:
  assumes "\<not> squares_overflow a b c d"
    and "\<forall>ang \<in> set angs. discriminant a b c d (np_radians ang) < 0"
  shows "solve_positions a b c d angs = Inr (map (\<lambda>_. (NaN, NaN)) angs)"
  using assms(2) by (induction angs) (simp_all add: solve_position_nan [OF assms(1)])


lemma small_links_in_range:
  assumes "a\<^sup>2 \<le> 10 ^ 300" "b\<^sup>2 \<le> 10 ^ 300" "c\<^sup>2 \<le> 10 ^ 300" "d\<^sup>2 \<le> 10 ^ 300"
  shows "\<not> squares_overflow a b c d"
  using assms float_max_large by (auto simp add: squares_overflow_def)

text \<open>
  Claim C1 says that at a crank angle where the discriminant \<open>A\<^sup>2 + B\<^sup>2 - C\<^sup>2\<close> is negative
  \<open>four_bar_mechanism\<close> signals a failure and never returns a result holding \<open>nan\<close>. The
  code does the opposite: with links 1, 1, 1 and ground 10 at crank angle 0 the
  discriminant is negative, no exception is raised, and both returned angles are \<open>nan\<close>.
\<close>

theorem four_bar_unassemblable_counterexample:
  "discriminant 1 1 1 10 (np_radians 0) < 0 \<and>
   four_bar_mechanism 1 1 1 10 (Scalar 0) =
     Inr [(''rocker_angle'', Float NaN), (''coupler_angle'', Float NaN)]"
proof -
  have r: "\<not> squares_overflow 1 1 1 10"
    by (rule small_links_in_range) simp_all
  have d: "discriminant 1 1 1 10 (np_radians 0) < 0"
    by (simp add: discriminant_def four_bar_A_def four_bar_B_def four_bar_C_def np_radians_def)
  show ?thesis
    using d by (simp add: four_bar_mechanism_def solve_position_nan [OF r d] np_degrees_def)
qed

text \<open>
  Claim C1, amended. For all link lengths whose squares are within the range of a double
  and every crank angle with a negative discriminant, \<open>four_bar_mechanism\<close> raises nothing
  and returns a result set whose rocker and coupler angles are both \<open>nan\<close>; for a
  sequence of such crank angles every entry of both returned lists is \<open>nan\<close>. When the
  square of a link length is beyond the range of a double, the call raises
  \<open>OverflowError\<close> at the first crank angle it solves, before the discriminant is formed.
\<close>

theorem four_bar_unassemblable_returns_nan:
  "(discriminant a b c d (np_radians ang) < 0 \<longrightarrow>
      four_bar_mechanism a b c d (Scalar ang) =
        (if squares_overflow a b c d then Inl OverflowError
         else Inr [(''rocker_angle'', Float NaN), (''coupler_angle'', Float NaN)]))
   \<and> ((\<forall>ang \<in> set angs. discriminant a b c d (np_radians ang) < 0) \<longrightarrow>
      four_bar_mechanism a b c d (Sequence angs) =
        (if squares_overflow a b c d \<and> angs \<noteq> [] then Inl OverflowError
         else Inr [(''rocker_angles'', FloatList (map (\<lambda>_. NaN) angs)),
                   (''coupler_angles'', FloatList (map (\<lambda>_. NaN) angs))]))"
proof (cases "squares_overflow a b c d")
  case True
  then show ?thesis
    by (cases "angs = []")
       (simp_all add: four_bar_mechanism_def solve_position_overflow solve_positions_overflow)
next
  case False
  then show ?thesis
    by (simp add: four_bar_mechanism_def solve_position_nan solve_positions_nan np_degrees_def
        comp_def)
qed

theorem four_bar_unassemblable_returns_nan_witness:
  "discriminant 2 1 1 5 (np_radians 0) < 0 \<and>
   discriminant 2 1 1 5 (np_radians 360) < 0 \<and>
   four_bar_mechanism 2 1 1 5 (Scalar 0) =
     Inr [(''rocker_angle'', Float NaN), (''coupler_angle'', Float NaN)] \<and>
   four_bar_mechanism 2 1 1 5 (Sequence [0, 360]) =
     Inr [(''rocker_angles'', FloatList [NaN, NaN]),
          (''coupler_angles'', FloatList [NaN, NaN])] \<and>
   discriminant (10 ^ 200) 1 1 1 (np_radians 0) < 0 \<and>
   four_bar_mechanism (10 ^ 200) 1 1 1 (Scalar 0) = Inl OverflowError \<and>
   four_bar_mechanism (10 ^ 200) 1 1 1 (Sequence [0]) = Inl OverflowError"
proof -
  have d0: "discriminant 2 1 1 5 (np_radians 0) < 0"
    by (simp add: discriminant_def four_bar_A_def four_bar_B_def four_bar_C_def np_radians_def)
  have d360: "discriminant 2 1 1 5 (np_radians 360) < 0"
    by (simp add: discriminant_def four_bar_A_def four_bar_B_def four_bar_C_def np_radians_def)
  have r: "\<not> squares_overflow 2 1 1 5"
    by (rule small_links_in_range) simp_all
  have dbig: "discriminant (10 ^ 200) 1 1 1 (np_radians 0) < 0"
    by (simp add: discriminant_def four_bar_A_def four_bar_B_def four_bar_C_def np_radians_def)
  have big: "squares_overflow (10 ^ 200) 1 1 1"
    by (simp add: squares_overflow_def float_max_def)
  show ?thesis
    using four_bar_unassemblable_returns_nan [of 2 1 1 5 0 "[0, 360]"]
      four_bar_unassemblable_returns_nan [of "10 ^ 200" 1 1 1 0 "[0]"] d0 d360 r dbig big
    by simp
qed













subsection \<open>\<open>projectile_motion\<close> with air resistance\<close>

text \<open>
  While the sampled height is \<open>+inf\<close> and both velocity components are finite, one pass
  through the loop body leaves the height at \<open>+inf\<close> and the velocity finite.
\<close>

lemma euler_step_infinite_height:
  assumes "last (traj_y s) = PInf" and "last (traj_vx s) = Fin a" and "last (traj_vy s) = Fin b"
  shows "last (traj_y (euler_step g c s)) = PInf
     \<and> (\<exists>a'. last (traj_vx (euler_step g c s)) = Fin a')
     \<and> (\<exists>b'. last (traj_vy (euler_step g c s)) = Fin b')"
  using assms by (simp add: euler_step_def Let_def np_square_def np_sub_def)

lemma drag_loop_infinite_height:
  assumes "last (traj_y s) = PInf" and "\<exists>a. last (traj_vx s) = Fin a"
    and "\<exists>b. last (traj_vy s) = Fin b"
  shows "drag_loop fuel g c s = None"
  using assms
proof (induction fuel arbitrary: s)
  case 0
  then show ?case by simp
next
  case (Suc fuel)
  from Suc.prems obtain a b where ab: "last (traj_vx s) = Fin a" "last (traj_vy s) = Fin b"
    by blast
  have "drag_loop fuel g c (euler_step g c s) = None"
    using euler_step_infinite_height [OF Suc.prems(1) ab, of g c]
    by (intro Suc.IH) simp_all
  then show ?case
    using Suc.prems(1) by (simp add: np_greater_equal_def)
qed

text \<open>
  On an ordinary input the loop ends: a projectile released at rest from the ground is
  below the ground after one step, and the call returns the two sampled points.
\<close>

lemma projectile_lands_from_ground:
  "projectile_motion_drag 2 0 0 (Fin 0) 9.81 0.1 =
     Some [(''max_height'', PyFloat 0),
           (''range'', PyFloat 0),
           (''time_of_flight'', PyFloat 0.01),
           (''trajectory_x'', FloatList [Fin 0, Fin 0]),
           (''trajectory_y'', FloatList [Fin 0, Fin (- 0.000981)])]"
  by (simp add: projectile_motion_drag_def numeral_2_eq_2 euler_step_def Let_def np_square_def
      np_sub_def np_greater_equal_def py_max_def)

text \<open>
  Claim C9 says that the loop performs finitely many iterations for every input with
  \<open>g > 0\<close>, a drag coefficient \<open>\<ge> 0\<close> and a height \<open>\<ge> 0\<close>. A projectile released at rest
  from the height \<open>+inf\<close> (a float, and \<^verbatim>\<open>float('inf') >= 0\<close> holds), with the default
  \<open>g = 9.81\<close> and drag coefficient \<open>0.1\<close>, never lands: the velocity stays finite, every
  sampled height is \<open>+inf\<close>, and whatever the number of tests of the loop condition, the
  loop is still running.
\<close>

theorem projectile_never_lands:
  "np_greater_equal PInf (Fin 0) \<and> (0::real) < 9.81 \<and> (0::real) \<le> 0.1 \<and>
   projectile_motion_drag fuel 0 0 PInf 9.81 0.1 = None"
  by (simp add: projectile_motion_drag_def drag_loop_infinite_height np_greater_equal_def)

theorem projectile_never_lands_witness:
  "projectile_motion_drag 1000 0 0 PInf 9.81 0.1 = None"
  using projectile_never_lands [of 1000] by (rule conjunct2 [OF conjunct2 [OF conjunct2]])

subsection \<open>\<open>ideal_gas_law\<close>\<close>

lemma ideal_gas_law_body_count:
  "(ideal_gas_law_body msg p v n t R = Inl (ValueError msg)) = (provided [p, v, n, t] \<noteq> 3)"
  by (cases p; cases v; cases n; cases t)
     (simp_all add: ideal_gas_law_body_def provided_def py_div_def)

lemma ideal_gas_law_body_solve:
  "ideal_gas_law_body msg None (Some V) (Some N) (Some T) R =
     (if V = 0 then Inl ZeroDivisionError else Inr [(''pressure'', PyFloat (N * R * T / V))])"
  "ideal_gas_law_body msg (Some P) None (Some N) (Some T) R =
     (if P = 0 then Inl ZeroDivisionError else Inr [(''volume'', PyFloat (N * R * T / P))])"
  "ideal_gas_law_body msg (Some P) (Some V) None (Some T) R =
     (if R * T = 0 then Inl ZeroDivisionError else Inr [(''moles'', PyFloat (P * V / (R * T)))])"
  "ideal_gas_law_body msg (Some P) (Some V) (Some N) None R =
     (if N * R = 0 then Inl ZeroDivisionError else Inr [(''temperature'', PyFloat (P * V / (N * R)))])"
  by (simp_all add: ideal_gas_law_body_def py_div_def)

text \<open>
  Claim C3 says \<open>ideal_gas_law\<close> fails if and only if the number of provided arguments is
  not exactly three. The "only if" half is false: with pressure omitted and volume 0
  (moles 1, temperature 300) exactly three arguments are provided and the call still
  fails, with \<open>ZeroDivisionError\<close> from the division by the volume.
\<close>

theorem ideal_gas_law_counterexample:
  "provided [None, Some 0, Some 1, Some 300] = 3 \<and>
   ideal_gas_law None (Some 0) (Some 1) (Some 300) 8.314 = Inl ZeroDivisionError \<and>
   termux_ideal_gas_law None (Some 0) (Some 1) (Some 300) 8.314 = Inl ZeroDivisionError"
  by (simp add: provided_def ideal_gas_law_def termux_ideal_gas_law_def ideal_gas_law_body_solve)

text \<open>
  Claim C3, amended. \<open>ideal_gas_law\<close> (in both variants) fails with its "exactly three"
  \<open>ValueError\<close> if and only if the number of non-null arguments among pressure, volume,
  moles and temperature is not exactly three. When exactly three are provided it solves
  \<open>P V = n R T\<close> for the fourth: \<open>P = n R T / V\<close>, \<open>V = n R T / P\<close>, \<open>n = P V / (R T)\<close>,
  \<open>T = P V / (n R)\<close>; when the divisor of that quotient is zero the call fails with
  \<open>ZeroDivisionError\<close> instead of returning.
\<close>

theorem ideal_gas_law_spec:
  "(ideal_gas_law p v n t R = Inl (ValueError exactly_three_message)) = (provided [p, v, n, t] \<noteq> 3)
   \<and> (termux_ideal_gas_law p v n t R = Inl (ValueError termux_exactly_three_message))
       = (provided [p, v, n, t] \<noteq> 3)
   \<and> ideal_gas_law None (Some V) (Some N) (Some T) R =
       (if V = 0 then Inl ZeroDivisionError else Inr [(''pressure'', PyFloat (N * R * T / V))])
   \<and> ideal_gas_law (Some P) None (Some N) (Some T) R =
       (if P = 0 then Inl ZeroDivisionError else Inr [(''volume'', PyFloat (N * R * T / P))])
   \<and> ideal_gas_law (Some P) (Some V) None (Some T) R =
       (if R * T = 0 then Inl ZeroDivisionError else Inr [(''moles'', PyFloat (P * V / (R * T)))])
   \<and> ideal_gas_law (Some P) (Some V) (Some N) None R =
       (if N * R = 0 then Inl ZeroDivisionError
        else Inr [(''temperature'', PyFloat (P * V / (N * R)))])
   \<and> termux_ideal_gas_law None (Some V) (Some N) (Some T) R = ideal_gas_law None (Some V) (Some N) (Some T) R
   \<and> termux_ideal_gas_law (Some P) None (Some N) (Some T) R = ideal_gas_law (Some P) None (Some N) (Some T) R
   \<and> termux_ideal_gas_law (Some P) (Some V) None (Some T) R = ideal_gas_law (Some P) (Some V) None (Some T) R
   \<and> termux_ideal_gas_law (Some P) (Some V) (Some N) None R = ideal_gas_law (Some P) (Some V) (Some N) None R"
  unfolding ideal_gas_law_def termux_ideal_gas_law_def
  by (simp only: ideal_gas_law_body_count ideal_gas_law_body_solve simp_thms)

theorem ideal_gas_law_spec_witness:
  "ideal_gas_law None None (Some 1) (Some 300) 8.314 = Inl (ValueError exactly_three_message) \<and>
   ideal_gas_law (Some 1) (Some 1) (Some 1) (Some 1) 8.314 = Inl (ValueError exactly_three_message) \<and>
   ideal_gas_law (Some 100) (Some 2) (Some 4) None 5 = Inr [(''temperature'', PyFloat 10)]"
  using ideal_gas_law_spec [of None None "Some 1" "Some 300" "8.314" 2 4 1 100]
     ideal_gas_law_spec [of "Some 1" "Some 1" "Some 1" "Some 1" "8.314" 2 4 1 100]
     ideal_gas_law_spec [of None None None None 5 2 4 1 100]
  by (simp add: provided_def)

subsection \<open>\<open>fatigue_analysis\<close>\<close>


lemma basquin_exponent_neg: "basquin_exponent < 0"
  by (simp add: basquin_exponent_def)




lemma py_pow_basquin_overflow:
  "float_max < \<bar>r\<bar> powr basquin_exponent \<Longrightarrow> py_pow r basquin_exponent = Inl OverflowError"
proof -
  assume over: "float_max < \<bar>r\<bar> powr basquin_exponent"
  have "0 < float_max"
    using float_max_large by (rule less_le_trans [rotated]) simp
  with over have "r \<noteq> 0" by auto
  with over show ?thesis
    using basquin_exponent_neg by (simp add: py_pow_def)
qed




text \<open>
  The power overflows when the ratio is tiny: with an endurance limit of \<open>10\<^bsup>30\<^esup>\<close> the
  ratio is \<open>10\<^bsup>-28\<^esup>\<close>, the safety factor is not above 1, and \<open>(10\<^bsup>-28\<^esup>)\<^bsup>1/b\<^esup>\<close>, about
  \<open>10\<^bsup>329\<^esup>\<close>, is beyond the largest double.
\<close>

lemma tiny_ratio_power: "float_max < \<bar>1 / 10 ^ 28\<bar> powr basquin_exponent"
proof -
  have e: "basquin_exponent = - (200 / 17)"
    by (simp add: basquin_exponent_def)
  have "\<bar>1 / 10 ^ 28 :: real\<bar> = 10 powr (- 28)"
    by (simp add: powr_minus powr_numeral inverse_eq_divide)
  then have "\<bar>1 / 10 ^ 28 :: real\<bar> powr basquin_exponent =
               (10 powr (- 28)) powr (- (200 / 17))"
    by (simp only: e)
  also have "\<dots> = 10 powr (- 28 * - (200 / 17))"
    by (rule powr_powr)
  also have "- 28 * - (200 / 17) = (5600 / 17 :: real)"
    by simp
  finally have "\<bar>1 / 10 ^ 28 :: real\<bar> powr basquin_exponent = 10 powr (5600 / 17)" .
  moreover have "(10::real) powr 329 \<le> 10 powr (5600 / 17)"
    by (rule powr_mono) simp_all
  moreover have "(10::real) powr 329 = 10 ^ 329"
    by (simp add: powr_numeral)
  moreover have "float_max < 10 ^ 329"
    by (simp add: float_max_def)
  ultimately show ?thesis by linarith
qed

lemma fatigue_analysis_overflow:
  "fatigue_analysis 600 400 500 (10 ^ 30) 1 1 1 = Inl OverflowError"
proof -
  have r: "(100::real) / 10 ^ 30 = 1 / 10 ^ 28" by simp
  have p: "py_pow (1 / 10 ^ 28) basquin_exponent = Inl OverflowError"
    using tiny_ratio_power by (rule py_pow_basquin_overflow)
  have sf: "\<not> 1 < 1 / (1 / 10 ^ 28 + (1::real))"
    by (simp add: field_simps)
  show ?thesis
    using p sf by (simp add: fatigue_analysis_def Let_def py_div_def r)
qed

subsection \<open>Materials\<close>

lemma absent_lookup:
  assumes "material_code \<notin> set (map fst MATERIALS_DB)"
  shows "get_material_properties material_code = Inr []"
proof -
  from assms have "map_of MATERIALS_DB material_code = None"
    by (simp add: map_of_eq_None_iff)
  then show ?thesis by (simp add: get_material_properties_def)
qed

text \<open>
  Claim C7 says every materials operation, the bare lookup \<open>get_material_properties\<close>
  included, yields a "not found" failure for a code absent from the table. The lookup
  does not: for the absent code \<open>TITANIUM\<close> it returns the empty mapping.
\<close>

theorem get_material_properties_counterexample:
  "''TITANIUM'' \<notin> set (map fst MATERIALS_DB) \<and> get_material_properties ''TITANIUM'' = Inr []"
  by (simp add: get_material_properties_def MATERIALS_DB_def)

text \<open>
  Claim C7, amended. For every material code absent from the static materials table,
  \<open>get_material_properties\<close> returns the empty mapping without failing, and each derived
  operation that takes a material code (\<open>calculate_stress_strain\<close>, \<open>thermal_expansion\<close>,
  \<open>heat_conduction\<close>, \<open>material_cost_estimate\<close>) fails with the \<open>ValueError\<close>
  "Material not found in database", whatever its other arguments.
\<close>

theorem absent_material:
  assumes "material_code \<notin> set (map fst MATERIALS_DB)"
  shows "get_material_properties material_code = Inr []
    \<and> calculate_stress_strain force area material_code = Inl not_found
    \<and> thermal_expansion material_code initial_length temperature_change = Inl not_found
    \<and> heat_conduction material_code wall_area thickness temperature_difference = Inl not_found
    \<and> material_cost_estimate material_code volume processing_factor = Inl not_found"
  by (simp add: absent_lookup [OF assms] calculate_stress_strain_def thermal_expansion_def
      heat_conduction_def material_cost_estimate_def)

theorem absent_material_witness:
  "''UNOBTAINIUM'' \<notin> set (map fst MATERIALS_DB)
   \<and> get_material_properties ''UNOBTAINIUM'' = Inr []
   \<and> calculate_stress_strain 1000 2 ''UNOBTAINIUM'' = Inl (ValueError ''Material not found in database'')
   \<and> thermal_expansion ''UNOBTAINIUM'' 1 10 = Inl (ValueError ''Material not found in database'')
   \<and> heat_conduction ''UNOBTAINIUM'' 1 1 10 = Inl (ValueError ''Material not found in database'')
   \<and> material_cost_estimate ''UNOBTAINIUM'' 1 1 = Inl (ValueError ''Material not found in database'')"
proof -
  have a: "''UNOBTAINIUM'' \<notin> set (map fst MATERIALS_DB)"
    by (simp add: MATERIALS_DB_def)
  show ?thesis
    using absent_material [OF a, of 1000 2 1 10 1 1 10 1 1] a
    by (simp add: not_found_def)
qed

subsection \<open>\<open>shaft_design\<close>\<close>

lemma py_min_nonempty: "xs \<noteq> [] \<Longrightarrow> py_min xs = Inr (Min (set xs))"
proof (cases xs)
  case Nil
  then show "xs \<noteq> [] \<Longrightarrow> ?thesis" by simp
next
  case (Cons x rest)
  have "Min (set (x # rest)) = fold min rest x" by (rule Min.set_eq_fold)
  with Cons show ?thesis by (simp add: py_min_def)
qed

lemma math_sqrt_nonneg: "0 \<le> x \<Longrightarrow> math_sqrt x = Inr (sqrt x)"
  by (simp add: math_sqrt_def)

lemma math_pow_third: "math_pow q (1 / 3) = Inr r \<longleftrightarrow> 0 \<le> q \<and> r = q powr (1 / 3)"
proof -
  have "(1 / 3 :: real) \<noteq> of_int \<lfloor>1 / 3 :: real\<rfloor>"
  proof -
    have "\<lfloor>1 / 3 :: real\<rfloor> = 0" by linarith
    then show ?thesis by simp
  qed
  then show ?thesis
    by (auto simp add: math_pow_def)
qed

lemma math_pow_third_nonneg: "0 \<le> q \<Longrightarrow> math_pow q (1 / 3) = Inr (q powr (1 / 3))"
  by (simp add: math_pow_third)


lemma required_diameter_Inr:
  assumes "required_diameter T M Y F S K = Inr d"
  shows "shaft_Sy Y \<noteq> 0" "shaft_Sf Y F \<noteq> 0"
    "0 \<le> 16 * S * equivalent_moment K M T / (pi * shaft_Sy Y)"
    "0 \<le> 16 * S * equivalent_moment K M T / (pi * shaft_Sf Y F)"
    "d = max ((16 * S * equivalent_moment K M T / (pi * shaft_Sy Y)) powr (1 / 3))
             ((16 * S * equivalent_moment K M T / (pi * shaft_Sf Y F)) powr (1 / 3))"
proof -
  from assms have r: "(K * M)\<^sup>2 \<le> float_max" "(K * T)\<^sup>2 \<le> float_max"
    by (auto simp add: required_diameter_def Let_def py_bind_eq_Inr py_square_eq_Inr)
  from assms show "shaft_Sy Y \<noteq> 0" "shaft_Sf Y F \<noteq> 0"
    "0 \<le> 16 * S * equivalent_moment K M T / (pi * shaft_Sy Y)"
    "0 \<le> 16 * S * equivalent_moment K M T / (pi * shaft_Sf Y F)"
    "d = max ((16 * S * equivalent_moment K M T / (pi * shaft_Sy Y)) powr (1 / 3))
             ((16 * S * equivalent_moment K M T / (pi * shaft_Sf Y F)) powr (1 / 3))"
    by (auto simp add: required_diameter_def Let_def py_square_in_range [OF r(1)]
        py_square_in_range [OF r(2)] math_sqrt_nonneg py_bind_eq_Inr py_div_eq_Inr
        math_pow_third equivalent_moment_def shaft_Sy_def shaft_Sf_def)
qed

lemma shaft_design_after_diameter:
  assumes "required_diameter T M Y F S K = Inr d"
  shows "shaft_design T M Y F S K =
           py_bind (py_min (filter (\<lambda>size. d * 1000 \<le> real_of_int size) std_sizes)) (\<lambda>size.
             py_bind (py_div (32 * equivalent_moment K M T) (pi * (real_of_int size / 1000) ^ 3))
               (\<lambda>actual_stress.
             py_bind (py_div (min (shaft_Sy Y) (shaft_Sf Y F)) actual_stress) (\<lambda>safety_margin.
               Inr [(''required_diameter'', PyFloat d),
                    (''actual_diameter'', PyFloat (real_of_int size / 1000)),
                    (''equivalent_moment'', PyFloat (equivalent_moment K M T)),
                    (''maximum_stress'', PyFloat (actual_stress / 1000000)),
                    (''actual_safety_factor'', PyFloat safety_margin)])))"
proof -
  from assms have r: "(K * M)\<^sup>2 \<le> float_max" "(K * T)\<^sup>2 \<le> float_max"
    by (auto simp add: required_diameter_def Let_def py_bind_eq_Inr py_square_eq_Inr)
  from assms show ?thesis
    by (auto simp add: required_diameter_def shaft_design_def Let_def
        py_square_in_range [OF r(1)] py_square_in_range [OF r(2)] math_sqrt_nonneg
        py_bind_eq_Inr equivalent_moment_def shaft_Sy_def shaft_Sf_def)
qed

lemma std_sizes_le_100: "s \<in> set std_sizes \<Longrightarrow> s \<le> 100"
  by (auto simp add: std_sizes_def)

lemma std_sizes_ge_10: "s \<in> set std_sizes \<Longrightarrow> 10 \<le> s"
  by (auto simp add: std_sizes_def)

text \<open>
  Claim C10. For every \<open>shaft_design\<close> input whose governing required diameter exceeds
  the largest standard size (0.1 m), \<open>shaft_design\<close> fails: the selection over the
  standard sizes at least the required diameter is over an empty sequence, and \<open>min\<close>
  raises \<open>ValueError\<close>; no diameter is returned.
\<close>

theorem shaft_design_oversize:
  assumes "required_diameter torque moment yield fatigue safety k_t = Inr d" and "0.1 < d"
  shows "shaft_design torque moment yield fatigue safety k_t =
           Inl (ValueError ''min() arg is an empty sequence'')"
proof -
  have "filter (\<lambda>size. d * 1000 \<le> real_of_int size) std_sizes = []"
  proof (rule filter_False, rule ballI)
    fix s assume "s \<in> set std_sizes"
    then have "real_of_int s \<le> 100" using std_sizes_le_100 [of s] by linarith
    with assms(2) show "\<not> d * 1000 \<le> real_of_int s" by linarith
  qed
  then show ?thesis
    by (simp add: shaft_design_after_diameter [OF assms(1)] py_min_def)
qed

text \<open>
  Claim C8, amended. For every \<open>shaft_design\<close> input with a non-zero equivalent moment
  whose governing required diameter \<open>d\<close> is at most 0.1 m, the call returns and
  \<open>actual_diameter\<close> is the smallest entry of the standard-size table (in mm) that is
  greater than or equal to \<open>1000 d\<close>, divided by 1000; \<open>d\<close> is the larger of the
  static-governed \<open>(16 S Me / (\<pi> Sy))\<^bsup>1/3\<^esup>\<close> and the fatigue-governed
  \<open>(16 S Me / (\<pi> Sf))\<^bsup>1/3\<^esup>\<close>, with \<open>S\<close> the safety factor and \<open>Me\<close> the ASME equivalent
  moment of the torque and the bending moment under the stress-concentration factor.
\<close>

theorem shaft_design_actual_diameter:
  assumes "required_diameter torque moment yield fatigue safety k_t = Inr d" and "d \<le> 0.1"
    and "equivalent_moment k_t moment torque \<noteq> 0"
  shows "\<exists>size. size \<in> set std_sizes \<and> d * 1000 \<le> real_of_int size
           \<and> (\<forall>s \<in> set std_sizes. d * 1000 \<le> real_of_int s \<longrightarrow> size \<le> s)
           \<and> shaft_design torque moment yield fatigue safety k_t =
               Inr [(''required_diameter'', PyFloat d),
                    (''actual_diameter'', PyFloat (real_of_int size / 1000)),
                    (''equivalent_moment'', PyFloat (equivalent_moment k_t moment torque)),
                    (''maximum_stress'',
                       PyFloat (32 * equivalent_moment k_t moment torque
                                  / (pi * (real_of_int size / 1000) ^ 3) / 1000000)),
                    (''actual_safety_factor'',
                       PyFloat (min (shaft_Sy yield) (shaft_Sf yield fatigue)
                                  / (32 * equivalent_moment k_t moment torque
                                       / (pi * (real_of_int size / 1000) ^ 3))))]
           \<and> d = max ((16 * safety * equivalent_moment k_t moment torque / (pi * shaft_Sy yield)) powr (1 / 3))
                     ((16 * safety * equivalent_moment k_t moment torque / (pi * shaft_Sf yield fatigue)) powr (1 / 3))"
proof -
  define ok where "ok = filter (\<lambda>size. d * 1000 \<le> real_of_int size) std_sizes"
  define size where "size = Min (set ok)"
  have set_ok: "set ok = {s \<in> set std_sizes. d * 1000 \<le> real_of_int s}"
    by (simp add: ok_def)
  have "100 \<in> set ok" using assms(2) by (simp add: set_ok std_sizes_def)
  then have ne: "ok \<noteq> []" by (metis empty_iff empty_set)
  then have min: "py_min ok = Inr size" by (simp add: py_min_nonempty size_def)
  have "size \<in> set ok" unfolding size_def using ne by (intro Min_in) simp_all
  then have in_std: "size \<in> set std_sizes" and ge: "d * 1000 \<le> real_of_int size"
    by (simp_all add: set_ok)
  have least: "\<forall>s \<in> set std_sizes. d * 1000 \<le> real_of_int s \<longrightarrow> size \<le> s"
  proof (intro ballI impI)
    fix s assume "s \<in> set std_sizes" "d * 1000 \<le> real_of_int s"
    then have "s \<in> set ok" by (simp add: set_ok)
    then show "size \<le> s" unfolding size_def by (intro Min_le) simp_all
  qed
  have "10 \<le> size" using in_std by (rule std_sizes_ge_10)
  then have pos: "pi * (real_of_int size / 1000) ^ 3 \<noteq> 0" by simp
  with assms(3) have stress: "32 * equivalent_moment k_t moment torque / (pi * (real_of_int size / 1000) ^ 3) \<noteq> 0"
    by simp
  have "shaft_design torque moment yield fatigue safety k_t =
               Inr [(''required_diameter'', PyFloat d),
                    (''actual_diameter'', PyFloat (real_of_int size / 1000)),
                    (''equivalent_moment'', PyFloat (equivalent_moment k_t moment torque)),
                    (''maximum_stress'',
                       PyFloat (32 * equivalent_moment k_t moment torque
                                  / (pi * (real_of_int size / 1000) ^ 3) / 1000000)),
                    (''actual_safety_factor'',
                       PyFloat (min (shaft_Sy yield) (shaft_Sf yield fatigue)
                                  / (32 * equivalent_moment k_t moment torque
                                       / (pi * (real_of_int size / 1000) ^ 3))))]"
    using pos stress
    by (simp only: shaft_design_after_diameter [OF assms(1)] ok_def [symmetric] min
        py_bind_simps py_div_def if_False)
  with in_std ge least required_diameter_Inr(5) [OF assms(1)] show ?thesis by blast
qed


lemma required_diameter_value:
  assumes "shaft_Sy Y \<noteq> 0" and "shaft_Sf Y F \<noteq> 0"
    and "0 \<le> 16 * S * equivalent_moment K M T / (pi * shaft_Sy Y)"
    and "0 \<le> 16 * S * equivalent_moment K M T / (pi * shaft_Sf Y F)"
    and "(K * M)\<^sup>2 \<le> float_max" and "(K * T)\<^sup>2 \<le> float_max"
  shows "required_diameter T M Y F S K =
           Inr (max ((16 * S * equivalent_moment K M T / (pi * shaft_Sy Y)) powr (1 / 3))
                    ((16 * S * equivalent_moment K M T / (pi * shaft_Sf Y F)) powr (1 / 3)))"
  using assms
  by (simp add: required_diameter_def Let_def math_sqrt_nonneg py_div_def math_pow_third_nonneg
      py_square_in_range equivalent_moment_def shaft_Sy_def shaft_Sf_def)

lemma pi_ge_3: "3 \<le> pi"
proof -
  have "sin (pi / 6) \<le> pi / 6" by (rule sin_x_le_x) simp
  then show ?thesis by (simp add: sin_30)
qed

lemma cube_root_cancel: "0 \<le> y \<Longrightarrow> (y ^ 3) powr (1 / 3) = (y::real)"
  using root_powr_inverse [of 3 "y ^ 3"] real_root_power_cancel [of 3 y] by simp

lemma cube_root_le: "0 \<le> x \<Longrightarrow> 0 \<le> y \<Longrightarrow> x \<le> y ^ 3 \<Longrightarrow> x powr (1 / 3) \<le> (y::real)"
  using powr_mono2 [of "1 / 3" x "y ^ 3"] cube_root_cancel [of y] by simp

lemma cube_root_gt: "0 \<le> y \<Longrightarrow> y ^ 3 < x \<Longrightarrow> (y::real) < x powr (1 / 3)"
  using powr_less_mono2 [of "1 / 3" "y ^ 3" x] cube_root_cancel [of y] by simp

text \<open>
  Claim C8 promises a returned \<open>actual_diameter\<close> for every input whose required
  diameter is at most 0.1 m. With zero torque and zero bending moment the required
  diameter is 0, the size 10 mm is selected, the actual stress is 0, and the final
  division \<^verbatim>\<open>min(Sy, Sf) / actual_stress\<close> raises \<open>ZeroDivisionError\<close>: nothing is returned.
\<close>

theorem shaft_design_zero_load_counterexample:
  "required_diameter 0 0 300 None 2 1.5 = Inr 0 \<and>
   shaft_design 0 0 300 None 2 1.5 = Inl ZeroDivisionError"
proof -
  have r: "required_diameter 0 0 300 None 2 1.5 = Inr 0"
    by (simp add: required_diameter_def Let_def py_square_def float_max_def math_sqrt_def
        py_div_def math_pow_def)
  have f: "filter (\<lambda>size. (0::real) * 1000 \<le> real_of_int size) std_sizes = std_sizes"
    by (simp add: std_sizes_def)
  have m: "py_min std_sizes = Inr 10"
    by (simp add: py_min_def std_sizes_def)
  have "shaft_design 0 0 300 None 2 1.5 = Inl ZeroDivisionError"
    using shaft_design_after_diameter [OF r] f
    by (simp add: m equivalent_moment_def py_div_def)
  with r show ?thesis by simp
qed

lemma Me_120: "equivalent_moment (3 / 2) 120 0 = 180"
proof -
  have "(3 / 2 * 120 :: real)\<^sup>2 + 0.75 * (3 / 2 * 0)\<^sup>2 = 180\<^sup>2" by simp
  then have "equivalent_moment (3 / 2) 120 0 = sqrt (180\<^sup>2)"
    unfolding equivalent_moment_def by (rule arg_cong)
  then show ?thesis by simp
qed


lemma moderate_load_diameter:
  "required_diameter 0 120 300 None 2 1.5 = Inr ((5760 / (pi * 150000000)) powr (1 / 3))"
proof -
  have le: "(5760 / (pi * 300000000)) powr (1 / 3) \<le> (5760 / (pi * 150000000)) powr (1 / 3)"
    by (rule powr_mono2) (simp_all add: frac_le)
  have "required_diameter 0 120 300 None 2 1.5 =
          Inr (max ((16 * 2 * equivalent_moment 1.5 120 0 / (pi * shaft_Sy 300)) powr (1 / 3))
                   ((16 * 2 * equivalent_moment 1.5 120 0 / (pi * shaft_Sf 300 None)) powr (1 / 3)))"
    by (rule required_diameter_value)
       (simp_all add: Me_120 shaft_Sy_def shaft_Sf_def float_max_def)
  then show ?thesis
    using le by (simp add: Me_120 shaft_Sy_def shaft_Sf_def max_def)
qed

lemma moderate_load_bounds:
  "20 < (5760 / (pi * 150000000)) powr (1 / 3) * 1000"
  "(5760 / (pi * 150000000)) powr (1 / 3) * 1000 \<le> 25"
proof -
  have "(0.02 :: real) ^ 3 < 5760 / (pi * 150000000)"
    using pi_less_4 pi_gt_zero by (simp add: field_simps power3_eq_cube)
  then have "0.02 < (5760 / (pi * 150000000)) powr (1 / 3)"
    by (intro cube_root_gt) simp_all
  then show "20 < (5760 / (pi * 150000000)) powr (1 / 3) * 1000" by simp
  have "5760 / (pi * 150000000) \<le> (0.025 :: real) ^ 3"
    using pi_ge_3 by (simp add: field_simps power3_eq_cube)
  then have "(5760 / (pi * 150000000)) powr (1 / 3) \<le> 0.025"
    by (intro cube_root_le) simp_all
  then show "(5760 / (pi * 150000000)) powr (1 / 3) * 1000 \<le> 25" by simp
qed

theorem shaft_design_actual_diameter_witness:
  "required_diameter 0 120 300 None 2 1.5 = Inr ((5760 / (pi * 150000000)) powr (1 / 3)) \<and>
   (5760 / (pi * 150000000)) powr (1 / 3) \<le> 0.1 \<and>
   equivalent_moment 1.5 120 0 \<noteq> 0 \<and>
   shaft_design 0 120 300 None 2 1.5 =
     Inr [(''required_diameter'', PyFloat ((5760 / (pi * 150000000)) powr (1 / 3))),
          (''actual_diameter'', PyFloat (25 / 1000)),
          (''equivalent_moment'', PyFloat 180),
          (''maximum_stress'', PyFloat (32 * 180 / (pi * (25 / 1000) ^ 3) / 1000000)),
          (''actual_safety_factor'',
             PyFloat (150000000 / (32 * 180 / (pi * (25 / 1000) ^ 3))))]"
proof -
  let ?d = "(5760 / (pi * 150000000)) powr (1 / 3)"
  have small: "?d \<le> 0.1" using moderate_load_bounds(2) by simp
  have me: "equivalent_moment 1.5 120 0 \<noteq> 0" by (simp add: Me_120)
  obtain size where size: "size \<in> set std_sizes" "?d * 1000 \<le> real_of_int size"
    "\<forall>s \<in> set std_sizes. ?d * 1000 \<le> real_of_int s \<longrightarrow> size \<le> s"
    and res: "shaft_design 0 120 300 None 2 1.5 =
               Inr [(''required_diameter'', PyFloat ?d),
                    (''actual_diameter'', PyFloat (real_of_int size / 1000)),
                    (''equivalent_moment'', PyFloat (equivalent_moment 1.5 120 0)),
                    (''maximum_stress'',
                       PyFloat (32 * equivalent_moment 1.5 120 0
                                  / (pi * (real_of_int size / 1000) ^ 3) / 1000000)),
                    (''actual_safety_factor'',
                       PyFloat (min (shaft_Sy 300) (shaft_Sf 300 None)
                                  / (32 * equivalent_moment 1.5 120 0
                                       / (pi * (real_of_int size / 1000) ^ 3))))]"
    using shaft_design_actual_diameter [OF moderate_load_diameter small me] by blast
  have "20 < real_of_int size" using size(2) moderate_load_bounds(1) by linarith
  then have "20 < size" by linarith
  with size(1) have "25 \<le> size" by (auto simp add: std_sizes_def)
  moreover have "size \<le> 25"
    using size(3) moderate_load_bounds(2) by (simp add: std_sizes_def)
  ultimately have "size = 25" by simp
  with res have "shaft_design 0 120 300 None 2 1.5 =
     Inr [(''required_diameter'', PyFloat ?d),
          (''actual_diameter'', PyFloat (25 / 1000)),
          (''equivalent_moment'', PyFloat 180),
          (''maximum_stress'', PyFloat (32 * 180 / (pi * (25 / 1000) ^ 3) / 1000000)),
          (''actual_safety_factor'',
             PyFloat (150000000 / (32 * 180 / (pi * (25 / 1000) ^ 3))))]"
    by (simp add: Me_120 shaft_Sy_def shaft_Sf_def)
  with moderate_load_diameter small me show ?thesis by blast
qed

lemma heavy_load_diameter:
  "required_diameter 0 1000000 300 None 2 1.5 =
     Inr ((48000000 / (pi * 150000000)) powr (1 / 3))"
proof -
  have me: "equivalent_moment (3 / 2) 1000000 0 = 1500000"
  proof -
    have "(3 / 2 * 1000000 :: real)\<^sup>2 + 0.75 * (3 / 2 * 0)\<^sup>2 = 1500000\<^sup>2" by simp
    then have "equivalent_moment (3 / 2) 1000000 0 = sqrt (1500000\<^sup>2)"
      unfolding equivalent_moment_def by (rule arg_cong)
    then show ?thesis by simp
  qed
  have le: "(48000000 / (pi * 300000000)) powr (1 / 3) \<le> (48000000 / (pi * 150000000)) powr (1 / 3)"
    by (rule powr_mono2) (simp_all add: frac_le)
  have "required_diameter 0 1000000 300 None 2 1.5 =
          Inr (max ((16 * 2 * equivalent_moment 1.5 1000000 0 / (pi * shaft_Sy 300)) powr (1 / 3))
                   ((16 * 2 * equivalent_moment 1.5 1000000 0 / (pi * shaft_Sf 300 None)) powr (1 / 3)))"
    by (rule required_diameter_value)
       (simp_all add: me shaft_Sy_def shaft_Sf_def float_max_def)
  then show ?thesis
    using le by (simp add: me shaft_Sy_def shaft_Sf_def max_def)
qed

theorem shaft_design_oversize_witness:
  "required_diameter 0 1000000 300 None 2 1.5 =
     Inr ((48000000 / (pi * 150000000)) powr (1 / 3)) \<and>
   0.1 < (48000000 / (pi * 150000000)) powr (1 / 3) \<and>
   shaft_design 0 1000000 300 None 2 1.5 = Inl (ValueError ''min() arg is an empty sequence'')"
proof -
  have "(0.1 :: real) ^ 3 < 48000000 / (pi * 150000000)"
    using pi_less_4 pi_gt_zero by (simp add: field_simps power3_eq_cube)
  then have big: "0.1 < (48000000 / (pi * 150000000)) powr (1 / 3)"
    by (intro cube_root_gt) simp_all
  show ?thesis
    using shaft_design_oversize [OF heavy_load_diameter big] heavy_load_diameter big by blast
qed

subsection \<open>Dispatch on a variant name\<close>

text \<open>
  Claim C2 says every formula that dispatches on a variant name fails, with an error
  that lists the valid options, on an unsupported name and never returns a result set.
  \<open>thermal_stress\<close> with the unsupported constraint \<open>none\<close> returns the result of the
  partial constraint, and \<open>heat_transfer\<close> with the unsupported mode \<open>advection\<close> returns
  the empty result set.
\<close>

theorem unsupported_variant_counterexample:
  "thermal_stress 10 0.00001 200000000000 ''none'' =
     Inr [(''thermal_stress'', PyFloat (- 10000000)), (''thermal_strain'', PyFloat 0.00005)]
   \<and> heat_transfer 1 1 1 1 ''advection'' = Inr []"
  by (simp add: thermal_stress_def heat_transfer_def)

lemma vessel_message_names: "list_all (\<lambda>n. sublist n vessel_message) vessel_types"
  by (simp add: vessel_types_def vessel_message_def quoted_def sublist_code)

lemma weir_message_names: "list_all (\<lambda>n. sublist n weir_message) weir_types"
  by (simp add: weir_types_def weir_message_def quoted_def sublist_code)

lemma cam_message_names: "list_all (\<lambda>n. sublist n cam_message) (map fst lift_functions)"
  by (simp add: cam_message_def lift_functions_def quoted_def py_str_list_def sublist_code)

lemma cam_message_text:
  "cam_message = ''Unsupported cam type. Choose from: ['' @ quoted ''simple_harmonic'' @ '', '' @
     quoted ''cycloidal'' @ '', '' @ quoted ''parabolic'' @ '']''"
  by (simp add: cam_message_def lift_functions_def py_str_list_def)

lemma channel_message_names: "sublist ''rectangular'' channel_message"
  by (simp add: channel_message_def sublist_code)

text \<open>
  Claim C2, amended. For the formulas that dispatch on a vessel type, a weir type, a cam
  type and a channel type, a call with an unsupported variant name returns no result
  set: it fails with a \<open>ValueError\<close> whose message names every supported variant. In
  particular \<open>open_channel_flow\<close> with \<open>channel_type = 'trapezoidal'\<close> fails with "Only
  rectangular channels are currently supported" and does not compute the rectangular
  result. \<open>thermal_stress\<close> has no unsupported constraint: every name other than \<open>full\<close>
  selects the partial constraint.
\<close>

theorem unsupported_variant:
  "(vessel_type \<notin> set vessel_types \<longrightarrow>
      pressure_vessel_stress pressure radius thickness vessel_type = Inl (ValueError vessel_message))
   \<and> list_all (\<lambda>n. sublist n vessel_message) vessel_types
   \<and> (weir_type \<notin> set weir_types \<longrightarrow>
      weir_flow weir_height weir_width head weir_type = Inl (ValueError weir_message))
   \<and> list_all (\<lambda>n. sublist n weir_message) weir_types
   \<and> (cam_type \<notin> set (map fst lift_functions) \<longrightarrow>
      cam_analysis base_circle_radius lift angle cam_type = Inl (ValueError cam_message))
   \<and> list_all (\<lambda>n. sublist n cam_message) (map fst lift_functions)
   \<and> (channel_type \<noteq> ''rectangular'' \<longrightarrow>
      open_channel_flow channel_width flow_depth slope manning_n channel_type =
        Inl (ValueError channel_message))
   \<and> open_channel_flow channel_width flow_depth slope manning_n ''trapezoidal'' =
        Inl (ValueError channel_message)
   \<and> sublist ''rectangular'' channel_message
   \<and> (constraint \<noteq> ''full'' \<longrightarrow>
      thermal_stress temperature_change expansion youngs_modulus constraint =
        Inr [(''thermal_stress'',
                PyFloat (- 0.5 * expansion * youngs_modulus * temperature_change)),
             (''thermal_strain'', PyFloat (0.5 * expansion * temperature_change))])"
proof -
  have cam: "cam_type \<notin> set (map fst lift_functions) \<longrightarrow>
      cam_analysis base_circle_radius lift angle cam_type = Inl (ValueError cam_message)"
  proof
    assume "cam_type \<notin> set (map fst lift_functions)"
    then have "map_of lift_functions cam_type = None" by (simp add: map_of_eq_None_iff)
    then show "cam_analysis base_circle_radius lift angle cam_type = Inl (ValueError cam_message)"
      by (simp add: cam_analysis_def)
  qed
  have vessel: "vessel_type \<notin> set vessel_types \<longrightarrow>
      pressure_vessel_stress pressure radius thickness vessel_type = Inl (ValueError vessel_message)"
    by (simp add: pressure_vessel_stress_def vessel_types_def)
  have weir: "weir_type \<notin> set weir_types \<longrightarrow>
      weir_flow weir_height weir_width head weir_type = Inl (ValueError weir_message)"
    by (simp add: weir_flow_def weir_types_def)
  have channel: "channel_type \<noteq> ''rectangular'' \<longrightarrow>
      open_channel_flow channel_width flow_depth slope manning_n channel_type =
        Inl (ValueError channel_message)"
    "open_channel_flow channel_width flow_depth slope manning_n ''trapezoidal'' =
        Inl (ValueError channel_message)"
    by (simp_all add: open_channel_flow_def)
  have thermal: "constraint \<noteq> ''full'' \<longrightarrow>
      thermal_stress temperature_change expansion youngs_modulus constraint =
        Inr [(''thermal_stress'',
                PyFloat (- 0.5 * expansion * youngs_modulus * temperature_change)),
             (''thermal_strain'', PyFloat (0.5 * expansion * temperature_change))]"
    by (simp add: thermal_stress_def)
  show ?thesis
    using cam vessel weir channel thermal vessel_message_names weir_message_names
      cam_message_names channel_message_names
    by blast
qed

theorem unsupported_variant_witness:
  "pressure_vessel_stress 100000 1 0.01 ''cube'' = Inl (ValueError vessel_message)
   \<and> weir_flow 1 1 0.5 ''trapezoidal'' = Inl (ValueError weir_message)
   \<and> cam_analysis 0.05 0.01 (Scalar 90) ''polynomial'' = Inl (ValueError cam_message)
   \<and> open_channel_flow 2 1 0.001 0.013 ''trapezoidal'' = Inl (ValueError channel_message)
   \<and> open_channel_flow 2 1 0.001 0.013 ''circular'' = Inl (ValueError channel_message)
   \<and> thermal_stress 10 0.00001 200000000000 ''none'' =
        Inr [(''thermal_stress'', PyFloat (- 10000000)), (''thermal_strain'', PyFloat 0.00005)]"
  using unsupported_variant [of "''cube''" 100000 1 "0.01" "''trapezoidal''" 1 1 "0.5"
      "''polynomial''" "0.05" "0.01" "Scalar 90" "''circular''" 2 1 "0.001" "0.013"
      "''none''" 10 "0.00001" 200000000000]
  by (simp add: vessel_types_def weir_types_def lift_functions_def)

subsection \<open>Further properties of the formulas\<close>

text \<open>
  Round trip of \<open>ideal_gas_law\<close>: solving for the moles from \<open>P\<close>, \<open>V\<close>, \<open>T\<close> and then for
  the pressure from those moles, \<open>V\<close> and \<open>T\<close> gives back \<open>P\<close> (for non-zero \<open>V\<close> and \<open>R T\<close>).
\<close>

theorem ideal_gas_round_trip:
  assumes "V \<noteq> 0" and "R * T \<noteq> 0"
    and "ideal_gas_law (Some P) (Some V) None (Some T) R = Inr [(''moles'', PyFloat n)]"
  shows "ideal_gas_law None (Some V) (Some n) (Some T) R = Inr [(''pressure'', PyFloat P)]"
proof -
  from assms(2,3) have "n = P * V / (R * T)"
    by (simp add: ideal_gas_law_def ideal_gas_law_body_solve)
  with assms(1,2) show ?thesis
    by (simp add: ideal_gas_law_def ideal_gas_law_body_solve)
qed

theorem ideal_gas_round_trip_witness:
  "ideal_gas_law (Some 101325) (Some 2) None (Some 300) 8.314 =
     Inr [(''moles'', PyFloat (101325 * 2 / (8.314 * 300)))] \<and>
   ideal_gas_law None (Some 2) (Some (101325 * 2 / (8.314 * 300))) (Some 300) 8.314 =
     Inr [(''pressure'', PyFloat 101325)]"
proof -
  have a: "ideal_gas_law (Some 101325) (Some 2) None (Some 300) 8.314 =
     Inr [(''moles'', PyFloat (101325 * 2 / (8.314 * 300)))]"
    by (simp add: ideal_gas_law_def ideal_gas_law_body_solve)
  have "ideal_gas_law None (Some 2) (Some (101325 * 2 / (8.314 * 300))) (Some 300) 8.314 =
     Inr [(''pressure'', PyFloat 101325)]"
    by (rule ideal_gas_round_trip [OF _ _ a]) simp_all
  with a show ?thesis by blast
qed

text \<open>
  \<open>heat_transfer\<close> has no branch for a mode other than conduction, convection and
  radiation: it returns the empty result set.
\<close>

theorem heat_transfer_unknown_mode:
  assumes "mode \<notin> {''conduction'', ''convection'', ''radiation''}"
  shows "heat_transfer area k temp_diff thickness mode = Inr []"
  using assms by (simp add: heat_transfer_def)

theorem heat_transfer_unknown_mode_witness:
  "''advection'' \<notin> {''conduction'', ''convection'', ''radiation''} \<and>
   heat_transfer 2 0.5 30 0.1 ''advection'' = Inr []"
  using heat_transfer_unknown_mode [of "''advection''" 2 "0.5" 30 "0.1"] by simp

text \<open>
  For a sphere of non-zero wall thickness the returned hoop stress and von Mises stress
  are the same value \<open>p r / (2 t)\<close>.
\<close>

theorem sphere_hoop_is_von_mises:
  assumes "thickness \<noteq> 0"
  shows "pressure_vessel_stress pressure radius thickness ''sphere'' =
           Inr [(''hoop_stress'', PyFloat (pressure * radius / (2 * thickness))),
                (''von_mises_stress'', PyFloat (pressure * radius / (2 * thickness)))]"
  using assms by (simp add: pressure_vessel_stress_def py_div_def)

theorem sphere_hoop_is_von_mises_witness:
  "pressure_vessel_stress 1000000 2 0.01 ''sphere'' =
     Inr [(''hoop_stress'', PyFloat 100000000), (''von_mises_stress'', PyFloat 100000000)]"
  using sphere_hoop_is_von_mises [of "0.01" 1000000 2] by simp

text \<open>
  Zero stress amplitude (\<open>stress_max = stress_min = s\<close>): the safety factor is \<open>Su / s\<close>,
  whatever the (non-zero) endurance limit and its factors; the call returns the sentinel
  when that exceeds 1 and fails in the Basquin power otherwise.
\<close>

theorem fatigue_zero_amplitude:
  assumes "endurance_limit * surface_factor * size_factor * reliability_factor \<noteq> 0"
    and "ultimate_strength \<noteq> 0" and "s \<noteq> 0"
  shows "fatigue_analysis s s ultimate_strength endurance_limit
           surface_factor size_factor reliability_factor =
         (if ultimate_strength / s > 1 then
            Inr [(''safety_factor'', PyFloat (ultimate_strength / s)),
                 (''modified_endurance_limit'',
                    PyFloat (endurance_limit * surface_factor * size_factor * reliability_factor)),
                 (''stress_amplitude'', PyFloat 0),
                 (''mean_stress'', PyFloat s),
                 (''cycles_to_failure'', PyFloat 1000000)]
          else Inl ZeroDivisionError)"
  using assms
  by (simp add: fatigue_analysis_def Let_def py_div_def py_pow_def basquin_exponent_def)

theorem fatigue_zero_amplitude_witness:
  "fatigue_analysis 100 100 500 250 0.9 0.95 0.897 =
     Inr [(''safety_factor'', PyFloat 5),
          (''modified_endurance_limit'', PyFloat (250 * 0.9 * 0.95 * 0.897)),
          (''stress_amplitude'', PyFloat 0),
          (''mean_stress'', PyFloat 100),
          (''cycles_to_failure'', PyFloat 1000000)] \<and>
   fatigue_analysis 600 600 500 250 0.9 0.95 0.897 = Inl ZeroDivisionError"
  using fatigue_zero_amplitude [of 250 "0.9" "0.95" "0.897" 500 100]
    fatigue_zero_amplitude [of 250 "0.9" "0.95" "0.897" 500 600]
  by simp

text \<open>
  The two squares of \<open>shaft_design\<close> and the fourth power of \<open>heat_transfer\<close> are Python
  powers: beyond the largest double they raise \<open>OverflowError\<close> before anything else is
  computed.
\<close>

lemma shaft_design_overflow:
  "shaft_design 0 (10 ^ 200) 250 None 2 1.5 = Inl OverflowError"
  by (simp add: shaft_design_def Let_def py_square_def float_max_def)

lemma heat_transfer_overflow:
  "heat_transfer 1 1 (10 ^ 100) 1 ''radiation'' = Inl OverflowError"
  by (simp add: heat_transfer_def Let_def py_int_pow_def float_max_def)

end
